theory Spec2Isabelle
  imports Main "HOL-Library.Word" "HOL-Library.Monad_Syntax"
begin

unbundle bit_operations_syntax

section \<open>The JT/T 808 frame parser (parser.cc) as HOL functions\<close>

text \<open>
  The development embeds \<^verbatim>\<open>parser.cc\<close> of libjt808: the header decoder
  \<^verbatim>\<open>JT808FrameHeadParse\<close>, the body handlers registered by
  \<^verbatim>\<open>JT808FrameParserInit\<close> and the entry point \<^verbatim>\<open>JT808FrameParse\<close>.

  Conventions of the embedding.
  \<^item> A byte is an \<open>8 word\<close>; the input buffer is a list of bytes.
  \<^item> C++ leaves a read outside the buffer, an iterator range that is reversed or leaves
    the buffer, and a signed overflow undefined. Every function that can reach such a
    point returns an \<open>option\<close>, and \<open>None\<close> stands for undefined behaviour. A
    theorem that says what the parser stores therefore also shows that the value is
    \<open>Some\<close>, that is, that no such point is reached.
  \<^item> A pointer to the parameter block is a \<open>ProtocolParameter option\<close>; \<open>None\<close> is
    the null pointer.
  \<^item> \<open>uint8_t\<close> operands are promoted to \<open>int\<close> before arithmetic, so sums and
    products of bytes are computed on \<open>nat\<close>/\<open>int\<close> and truncated when they are
    stored (\<open>word_of_nat\<close>); a \<open>uint16_t\<close> position that is advanced by a
    data-dependent amount is reduced modulo \<open>65536\<close>.
\<close>

subsection \<open>Bytes and the input buffer\<close>

type_synonym byte = "8 word"

text \<open>
  Modelled from the spec: the alias \<^verbatim>\<open>InputBuffer\<close> is declared in a header that is
  not among the sources. The parser indexes it, takes \<^verbatim>\<open>begin()\<close>, \<^verbatim>\<open>data()\<close> and
  \<^verbatim>\<open>size()\<close> of it and copies ranges of it into byte vectors: a contiguous sequence
  of bytes.
\<close>

type_synonym InputBuffer = "byte list"

text \<open>\<^verbatim>\<open>in[i]\<close>: undefined outside the buffer.\<close>

definition byte_at :: "InputBuffer \<Rightarrow> nat \<Rightarrow> byte option" where
  "byte_at inp i = (if i < length inp then Some (inp ! i) else None)"

text \<open>
  The iterator range \<^verbatim>\<open>[in.begin() + a, in.begin() + b)\<close> handed to
  \<^verbatim>\<open>assign\<close>: undefined when it is reversed or leaves the buffer.
\<close>

definition bytes_between :: "InputBuffer \<Rightarrow> int \<Rightarrow> int \<Rightarrow> byte list option" where
  "bytes_between inp a b =
     (if 0 \<le> a \<and> a \<le> b \<and> b \<le> int (length inp)
      then Some (take (nat (b - a)) (drop (nat a) inp)) else None)"

text \<open>\<^verbatim>\<open>in[i] * 256 + in[i + 1]\<close> stored into a \<open>uint16_t\<close>.\<close>

definition mul256_add :: "byte \<Rightarrow> byte \<Rightarrow> 16 word" where
  "mul256_add hi lo = word_of_nat (unat hi * 256 + unat lo)"

text \<open>
  Modelled from the spec: util.h and util.cc (the unions \<^verbatim>\<open>U16ToU8Array\<close> and
  \<^verbatim>\<open>U32ToU8Array\<close>, \<^verbatim>\<open>EndianSwap16\<close>, \<^verbatim>\<open>EndianSwap32\<close>, \<^verbatim>\<open>ReverseEscape\<close>,
  \<^verbatim>\<open>BccCheckSum\<close>) are not among the sources. A union overlays an integer with its
  bytes in memory order, byte 0 the least significant one on the little-endian hosts the
  library is built for. The spec asks for big-endian 16- and 32-bit conversions, so the
  swaps reverse the byte order.
\<close>

definition u16val :: "byte \<Rightarrow> byte \<Rightarrow> 16 word" where
  "u16val b0 b1 = word_of_nat (unat b0 + 256 * unat b1)"

definition u32val :: "byte \<Rightarrow> byte \<Rightarrow> byte \<Rightarrow> byte \<Rightarrow> 32 word" where
  "u32val b0 b1 b2 b3 =
     word_of_nat (unat b0 + 256 * unat b1 + 65536 * unat b2 + 16777216 * unat b3)"

definition EndianSwap16 :: "16 word \<Rightarrow> 16 word" where
  "EndianSwap16 w = word_of_nat (unat w mod 256 * 256 + unat w div 256)"

definition EndianSwap32 :: "32 word \<Rightarrow> 32 word" where
  "EndianSwap32 w =
     word_of_nat (unat w mod 256 * 16777216 + unat w div 256 mod 256 * 65536
                  + unat w div 65536 mod 256 * 256 + unat w div 16777216)"

text \<open>
  \<^verbatim>\<open>memcpy(u16converter.u8array, &(in[pos]), 2)\<close> followed by \<^verbatim>\<open>EndianSwap16\<close>, and
  the 32-bit form with four bytes. The copy reads every byte it names.
\<close>

definition swapped16_at :: "InputBuffer \<Rightarrow> nat \<Rightarrow> 16 word option" where
  "swapped16_at inp pos = do {
     b0 \<leftarrow> byte_at inp pos;
     b1 \<leftarrow> byte_at inp (pos + 1);
     Some (EndianSwap16 (u16val b0 b1))
   }"

definition swapped32_at :: "InputBuffer \<Rightarrow> nat \<Rightarrow> 32 word option" where
  "swapped32_at inp pos = do {
     b0 \<leftarrow> byte_at inp pos;
     b1 \<leftarrow> byte_at inp (pos + 1);
     b2 \<leftarrow> byte_at inp (pos + 2);
     b3 \<leftarrow> byte_at inp (pos + 3);
     Some (EndianSwap32 (u32val b0 b1 b2 b3))
   }"

subsection \<open>BCD, escaping and the checksum\<close>

text \<open>
  Modelled from the spec: bcd.h and bcd.cc (\<^verbatim>\<open>BcdToString\<close>,
  \<^verbatim>\<open>BcdToStringFillZero\<close>) are not among the sources. By the spec an \<open>N\<close>-byte BCD
  field decodes to exactly \<open>2N\<close> digits, leading zeros kept, and a malformed BCD phone
  number is a header parse error. \<open>BcdToString\<close> is \<open>None\<close> when it returns a
  non-zero status, which the model does on a nibble above 9; the caller's string then
  keeps its value. The callers of \<open>BcdToStringFillZero\<close> ignore its status; the model
  writes the character \<open>'0' + nibble\<close> for every nibble.
\<close>

definition bcd_char :: "nat \<Rightarrow> char" where
  "bcd_char n = char_of (48 + n)"

definition bcd_digits :: "byte \<Rightarrow> string" where
  "bcd_digits b = [bcd_char (unat b div 16), bcd_char (unat b mod 16)]"

definition bcd_decimal :: "byte \<Rightarrow> bool" where
  "bcd_decimal b = (unat b div 16 \<le> 9 \<and> unat b mod 16 \<le> 9)"

definition BcdToString :: "byte list \<Rightarrow> string option" where
  "BcdToString bcd =
     (if list_all bcd_decimal bcd then Some (concat (map bcd_digits bcd)) else None)"

definition BcdToStringFillZero :: "byte list \<Rightarrow> string" where
  "BcdToStringFillZero bcd = concat (map bcd_digits bcd)"

text \<open>
  Modelled from the spec: \<^verbatim>\<open>ReverseEscape\<close> (util.cc, not among the sources). On
  receive \<open>7D 02\<close> becomes \<open>7E\<close> and \<open>7D 01\<close> becomes \<open>7D\<close>; any other byte after
  \<open>7D\<close>, or a \<open>7D\<close> at the very end, is a failure (\<open>None\<close>, the negative return
  value). \<^verbatim>\<open>JT808FrameParse\<close> hands it the whole buffer, flag bytes included.
\<close>

fun ReverseEscape :: "InputBuffer \<Rightarrow> byte list option" where
  "ReverseEscape [] = Some []"
| "ReverseEscape [b] = (if b = 0x7D then None else Some [b])"
| "ReverseEscape (b # c # cs) =
     (if b = 0x7D then
        (if c = 0x02 then map_option ((#) 0x7E) (ReverseEscape cs)
         else if c = 0x01 then map_option ((#) 0x7D) (ReverseEscape cs)
         else None)
      else map_option ((#) b) (ReverseEscape (c # cs)))"

text \<open>
  Modelled from the spec: \<^verbatim>\<open>BccCheckSum\<close> (util.cc, not among the sources), the
  single-byte XOR of the bytes it is given.
\<close>

definition BccCheckSum :: "byte list \<Rightarrow> byte" where
  "BccCheckSum src = foldl (XOR) 0 src"

subsection \<open>The parameter block (protocol_parameter.h)\<close>

text \<open>
  \<^verbatim>\<open>union MsgBodyAttribute\<close>: the 16-bit word \<^verbatim>\<open>u16val\<close> and its bit fields
  \<^verbatim>\<open>msglen : 10\<close>, \<^verbatim>\<open>encrypt : 3\<close>, \<^verbatim>\<open>packet : 1\<close>, \<^verbatim>\<open>retain : 2\<close>, allocated from
  the least significant bit (bits 0-9, 10-12, 13, 14-15, as the spec lays the word out).
\<close>

definition bit_msglen :: "16 word \<Rightarrow> nat" where
  "bit_msglen a = unat (a AND 0x3FF)"

definition bit_encrypt :: "16 word \<Rightarrow> nat" where
  "bit_encrypt a = unat (drop_bit 10 a AND 7)"

definition bit_packet :: "16 word \<Rightarrow> nat" where
  "bit_packet a = unat (drop_bit 13 a AND 1)"

definition MSGBODY_NOPACKET_POS :: nat where
  "MSGBODY_NOPACKET_POS = 13"

definition MSGBODY_PACKET_POS :: nat where
  "MSGBODY_PACKET_POS = 17"

record MsgHead =
  msg_id :: "16 word"
  msgbody_attr :: "16 word"
  phone_num :: string
  msg_flow_num :: "16 word"
  total_packet :: "16 word"
  packet_seq :: "16 word"

record RegisterInfo =
  province_id :: "16 word"
  city_id :: "16 word"
  manufacturer_id :: "byte list"
  terminal_model :: "byte list"
  terminal_id :: "byte list"
  car_plate_color :: byte
  car_plate_num :: string

definition kVin :: byte where
  "kVin = 0"

record UpgradeInfo =
  upgrade_type :: byte
  upgrade_result :: byte
  upgrade_manufacturer_id :: "byte list"
  version_id :: string
  upgrade_data_total_len :: "32 word"
  upgrade_data :: "byte list"

record FillPacket =
  first_packet_msg_flow_num :: "16 word"
  packet_id :: "16 word list"

text \<open>location_report.h. The unions \<^verbatim>\<open>AlarmBit\<close> and \<^verbatim>\<open>StatusBit\<close> are their 32-bit words.\<close>

record LocationBasicInformation =
  alarm :: "32 word"
  status :: "32 word"
  latitude :: "32 word"
  longitude :: "32 word"
  altitude :: "16 word"
  speed :: "16 word"
  bearing :: "16 word"
  time :: string

type_synonym LocationExtensions = "byte \<rightharpoonup> byte list"

record LocationTrackingControl =
  interval :: "16 word"
  tracking_time :: "32 word"

text \<open>
  Modelled from the spec: area_route.h, terminal_parameter.h and multimedia_upload.h are
  not among the sources. The records below hold the fields the spec lists and the
  handlers assign. A polygon vertex is kept as the two decoded 32-bit words (degrees
  times \<open>10^6\<close>); the double-precision product with \<^verbatim>\<open>1e-6\<close> that the source stores
  is outside this embedding. \<open>TerminalParameters\<close> is the spec's mapping from a
  32-bit parameter id to its value bytes, with unique keys; \<open>paras_insert\<close> is the
  \<^verbatim>\<open>insert\<close> of such a container, which keeps an entry that is already there.
\<close>

record LocationPoint =
  latitude_e6 :: "32 word"
  longitude_e6 :: "32 word"

record PolygonArea =
  area_id :: "32 word"
  area_attribute :: "16 word"
  start_time :: string
  stop_time :: string
  max_speed :: "16 word"
  overspeed_time :: byte
  vertices :: "LocationPoint list"

type_synonym TerminalParameters = "32 word \<rightharpoonup> byte list"

definition paras_insert :: "TerminalParameters \<Rightarrow> 32 word \<Rightarrow> byte list \<Rightarrow> TerminalParameters" where
  "paras_insert paras k v = (case paras k of None \<Rightarrow> paras(k \<mapsto> v) | Some _ \<Rightarrow> paras)"

record MultiMediaDataUpload =
  media_id :: "32 word"
  media_type :: byte
  media_format :: byte
  media_event :: byte
  channel_id :: byte
  loaction_report_body :: "byte list"
  media_data :: "byte list"

record MultiMediaDataUploadResponse =
  response_media_id :: "32 word"
  reload_packet_ids :: "16 word list"

record VersionInformation =
  version :: string
  rel_date :: string
  cpu_id :: "byte list"
  model :: string
  imei :: string
  imsi :: string
  iccid :: string
  car_model :: "16 word"
  vin :: string
  tot_mileage :: "32 word"
  tot_fuel :: "32 word"

record CardInfo =
  name :: string
  country :: string
  citizen_id :: string
  expire_date :: string
  dob :: string
  license_type :: string
  gender :: string
  license_id :: string
  issuing_branch :: string
  track :: string

record DrivingLicenseData =
  card_info :: CardInfo
  login_sts :: byte
  dlt_allow_flg :: byte

record CANInfo =
  can_id :: "32 word"
  can_bytes :: "byte list"

record CANBroadcastData =
  nbr_of_data :: "16 word"
  recv_time :: string
  can_info :: CANInfo

text \<open>
  \<^verbatim>\<open>struct ProtocolParameter\<close> holds every entity twice: the members the caller fills
  before packaging, and the same members again in the nested struct \<^verbatim>\<open>parse\<close>.
  \<open>ProtocolView\<close> is that list of members. A parameter block is the pair of the two
  views: \<open>send p\<close> holds the members outside \<^verbatim>\<open>parse\<close>, so
  \<open>msg_head (send p)\<close> is \<^verbatim>\<open>para->msg_head\<close> and \<open>msg_head (parse p)\<close> is
  \<^verbatim>\<open>para->parse.msg_head\<close>.
\<close>

record ProtocolView =
  respone_result :: byte
  respone_msg_id :: "16 word"
  respone_flow_num :: "16 word"
  msg_head :: MsgHead
  register_info :: RegisterInfo
  authentication_code :: "byte list"
  terminal_parameters :: TerminalParameters
  terminal_parameter_ids :: "32 word list"
  location_info :: LocationBasicInformation
  location_extension :: LocationExtensions
  location_tracking_control :: LocationTrackingControl
  polygon_area :: PolygonArea
  polygon_area_id :: "32 word list"
  upgrade_info :: UpgradeInfo
  fill_packet :: FillPacket
  multimedia_upload :: MultiMediaDataUpload
  multimedia_upload_response :: MultiMediaDataUploadResponse
  retain :: "byte list"
  version_info :: VersionInformation
  license_data :: DrivingLicenseData
  can_data :: CANBroadcastData

record ProtocolParameter =
  send :: ProtocolView
  parse :: ProtocolView

subsection \<open>Error codes (parser.h)\<close>

datatype ParserError =
  Ok | MiscError | ParametersNull | UnesapingError | ChecksumError
  | HeaderParseError | UnregisteredMessageParser

text \<open>
  \<^verbatim>\<open>make_error_code\<close> casts the enumerator to \<open>int\<close>; the category of every code the
  parser returns is \<^verbatim>\<open>parser_category()\<close>, so an error code is its integer value.
\<close>

fun make_error_code :: "ParserError \<Rightarrow> int" where
  "make_error_code Ok = 0"
| "make_error_code MiscError = -1"
| "make_error_code ParametersNull = -2"
| "make_error_code UnesapingError = -3"
| "make_error_code ChecksumError = -4"
| "make_error_code HeaderParseError = -5"
| "make_error_code UnregisteredMessageParser = -6"

text \<open>
  \<^verbatim>\<open>ParseHandler\<close>: a body handler gets the unescaped frame and the pointer, returns an
  \<open>int\<close> and may write through the pointer. \<^verbatim>\<open>Parser\<close> is the \<^verbatim>\<open>std::map\<close> from
  message id to handler.
\<close>

type_synonym ParseHandler =
  "InputBuffer \<Rightarrow> ProtocolParameter option \<Rightarrow> (int \<times> ProtocolParameter option) option"

type_synonym Parser = "16 word \<rightharpoonup> ParseHandler"

subsection \<open>The header decoder\<close>

text \<open>
  \<^verbatim>\<open>JT808FrameHeadParse\<close>. Its only caller passes \<^verbatim>\<open>&para->parse.msg_head\<close>, which is
  never null, so the header is passed by value and returned updated together with the
  status. All reads are guarded: bytes 1-12 by the size test, bytes 13-16 by the test
  \<^verbatim>\<open>in.size() - 15 - msglen == 4\<close>, which is computed in the unsigned 64-bit type
  \<^verbatim>\<open>size_t\<close> (lemma \<open>head_reads_in_range\<close>).
\<close>

definition packet_fields_present :: "InputBuffer \<Rightarrow> 16 word \<Rightarrow> bool" where
  "packet_fields_present inp attr =
     (bit_packet attr = 1 \<and>
      (int (length inp) - 15 - int (bit_msglen attr)) mod 2 ^ 64 = 4)"

definition JT808FrameHeadParse :: "InputBuffer \<Rightarrow> MsgHead \<Rightarrow> int \<times> MsgHead" where
  "JT808FrameHeadParse inp msg_head0 =
     (if length inp < 15 then (-1, msg_head0)
      else
        let h1 = msg_head0\<lparr>msg_id := mul256_add (inp ! 1) (inp ! 2)\<rparr>;
            h2 = h1\<lparr>msgbody_attr := mul256_add (inp ! 3) (inp ! 4)\<rparr>;
            phone_num_bcd = take 6 (drop 5 inp)
        in case BcdToString phone_num_bcd of
             None \<Rightarrow> (-1, h2)
           | Some phone \<Rightarrow>
               let h3 = h2\<lparr>phone_num := phone\<rparr>;
                   h4 = h3\<lparr>msg_flow_num := mul256_add (inp ! 11) (inp ! 12)\<rparr>
               in if packet_fields_present inp (msgbody_attr h4)
                  then (0, h4\<lparr>total_packet := mul256_add (inp ! 13) (inp ! 14),
                               packet_seq := mul256_add (inp ! 15) (inp ! 16)\<rparr>)
                  else (0, h4\<lparr>total_packet := 0, packet_seq := 0\<rparr>))"

subsection \<open>The entry point\<close>

text \<open>
  \<^verbatim>\<open>JT808FrameParse\<close>. The checksum test compares
  \<^verbatim>\<open>BccCheckSum(&(out[1]), out.size() - 3)\<close> with \<^verbatim>\<open>*(out.end() - 2)\<close>
  (\<open>checksum_matches\<close>); both are defined only when the unescaped frame has at
  least three bytes. The header is decoded into \<^verbatim>\<open>para->parse.msg_head\<close> in place, so what the
  decoder wrote before it failed stays there.
\<close>

definition checksum_matches :: "byte list \<Rightarrow> bool" where
  "checksum_matches out =
     (BccCheckSum (take (length out - 3) (drop 1 out)) = out ! (length out - 2))"

definition JT808FrameParse ::
  "Parser \<Rightarrow> InputBuffer \<Rightarrow> ProtocolParameter option \<Rightarrow> (int \<times> ProtocolParameter option) option" where
  "JT808FrameParse parser inp para =
     (case para of
        None \<Rightarrow> Some (make_error_code ParametersNull, None)
      | Some p \<Rightarrow>
          (case ReverseEscape inp of
             None \<Rightarrow> Some (make_error_code UnesapingError, Some p)
           | Some out \<Rightarrow>
               if length out < 3 then None
               else if \<not> checksum_matches out
               then Some (make_error_code ChecksumError, Some p)
               else
                 (case JT808FrameHeadParse out (msg_head (parse p)) of
                    (rc, h) \<Rightarrow>
                      let p1 = p\<lparr>parse := (parse p)\<lparr>msg_head := h\<rparr>\<rparr>
                      in if rc \<noteq> 0 then Some (make_error_code HeaderParseError, Some p1)
                         else
                           let p2 = p1\<lparr>send := (send p1)\<lparr>msg_head :=
                                      (msg_head (send p1))\<lparr>phone_num := phone_num (msg_head (parse p1))\<rparr>\<rparr>\<rparr>
                           in (case parser (msg_id (msg_head (parse p2))) of
                                 None \<Rightarrow> Some (make_error_code UnregisteredMessageParser, Some p2)
                               | Some handler \<Rightarrow> handler out (Some p2)))))"

subsection \<open>Body handlers\<close>

text \<open>
  Every handler that \<^verbatim>\<open>JT808FrameParserInit\<close> registers is a lambda that starts with
  \<^verbatim>\<open>if (para == nullptr) return -1;\<close> and from there on reads and writes nothing of
  the block but \<^verbatim>\<open>para->parse\<close>. \<open>parse_handler\<close> is that frame around a body
  that works on the parse view.
\<close>

definition parse_handler ::
  "(InputBuffer \<Rightarrow> ProtocolView \<Rightarrow> (int \<times> ProtocolView) option) \<Rightarrow> ParseHandler" where
  "parse_handler body inp para =
     (case para of
        None \<Rightarrow> Some (-1, None)
      | Some p \<Rightarrow>
          (case body inp (parse p) of
             None \<Rightarrow> None
           | Some (rc, v) \<Rightarrow> Some (rc, Some (p\<lparr>parse := v\<rparr>))))"

text \<open>
  \<^verbatim>\<open>para->parse.msg_head.msgbody_attr.bit.msglen\<close>, and the start of the body:
  \<^verbatim>\<open>pos = MSGBODY_NOPACKET_POS; if (...bit.packet == 1) pos = MSGBODY_PACKET_POS;\<close>
\<close>

definition msg_len :: "ProtocolView \<Rightarrow> nat" where
  "msg_len v = bit_msglen (msgbody_attr (msg_head v))"

definition body_pos :: "ProtocolView \<Rightarrow> nat" where
  "body_pos v =
     (if bit_packet (msgbody_attr (msg_head v)) = 1 then MSGBODY_PACKET_POS
      else MSGBODY_NOPACKET_POS)"

text \<open>\<^verbatim>\<open>for (i = 0; i < n; ++i) out.push_back(in[pos + i]);\<close>\<close>

definition read_bytes :: "InputBuffer \<Rightarrow> nat \<Rightarrow> nat \<Rightarrow> byte list option" where
  "read_bytes inp pos n =
     (if pos + n \<le> length inp then Some (take n (drop pos inp)) else None)"

text \<open>0x0001, terminal general response, and 0x8001, platform general response.\<close>

definition TerminalGeneralResponse_body ::
  "InputBuffer \<Rightarrow> ProtocolView \<Rightarrow> (int \<times> ProtocolView) option" where
  "TerminalGeneralResponse_body inp v = do {
     let pos = MSGBODY_NOPACKET_POS;
     b0 \<leftarrow> byte_at inp pos;
     b1 \<leftarrow> byte_at inp (pos + 1);
     b2 \<leftarrow> byte_at inp (pos + 2);
     b3 \<leftarrow> byte_at inp (pos + 3);
     b4 \<leftarrow> byte_at inp (pos + 4);
     Some (0, v\<lparr>respone_flow_num := mul256_add b0 b1,
                 respone_msg_id := mul256_add b2 b3,
                 respone_result := b4\<rparr>)
   }"

definition PlatformGeneralResponse_body ::
  "InputBuffer \<Rightarrow> ProtocolView \<Rightarrow> (int \<times> ProtocolView) option" where
  "PlatformGeneralResponse_body inp v = do {
     let pos = MSGBODY_NOPACKET_POS;
     b0 \<leftarrow> byte_at inp pos;
     b1 \<leftarrow> byte_at inp (pos + 1);
     b2 \<leftarrow> byte_at inp (pos + 2);
     b3 \<leftarrow> byte_at inp (pos + 3);
     b4 \<leftarrow> byte_at inp (pos + 4);
     Some (0, v\<lparr>respone_flow_num := mul256_add b0 b1,
                 respone_msg_id := mul256_add b2 b3,
                 respone_result := b4\<rparr>)
   }"

text \<open>0x0002, terminal heartbeat: empty body.\<close>

definition TerminalHeartBeat_body ::
  "InputBuffer \<Rightarrow> ProtocolView \<Rightarrow> (int \<times> ProtocolView) option" where
  "TerminalHeartBeat_body inp v = Some (0, v)"

text \<open>
  0x8003, fill packet request. The loop
  \<^verbatim>\<open>for (uint8_t i = 0; i < cnt; ++i) { id = in[pos + i * 2] + in[pos + 1 + i * 2]; ... }\<close>
  adds the two bytes of an id; \<open>cnt\<close> was read from one byte.
\<close>

function fill_packet_ids ::
  "InputBuffer \<Rightarrow> nat \<Rightarrow> byte \<Rightarrow> nat \<Rightarrow> 16 word list \<Rightarrow> 16 word list option" where
  "fill_packet_ids inp pos cnt i ids =
     (if i < unat cnt then do {
        a \<leftarrow> byte_at inp (pos + i * 2);
        b \<leftarrow> byte_at inp (pos + 1 + i * 2);
        fill_packet_ids inp pos cnt (i + 1) (ids @ [word_of_nat (unat a + unat b)])
      } else Some ids)"
  by pat_completeness auto
termination
  by (relation "measure (\<lambda>(inp, pos, cnt, i, ids). unat cnt - i)") auto

declare fill_packet_ids.simps [simp del]

definition FillPacketRequest_body ::
  "InputBuffer \<Rightarrow> ProtocolView \<Rightarrow> (int \<times> ProtocolView) option" where
  "FillPacketRequest_body inp v = do {
     let pos = body_pos v;
     b0 \<leftarrow> byte_at inp pos;
     b1 \<leftarrow> byte_at inp (pos + 1);
     let v1 = v\<lparr>fill_packet := (fill_packet v)\<lparr>first_packet_msg_flow_num := mul256_add b0 b1\<rparr>\<rparr>;
     c \<leftarrow> byte_at inp (pos + 2);
     if int (msg_len v) - 3 \<noteq> int (unat c) * 2 then Some (-1, v1)
     else do {
       ids \<leftarrow> fill_packet_ids inp (pos + 3) c 0 [];
       Some (0, v1\<lparr>fill_packet := (fill_packet v1)\<lparr>packet_id := ids\<rparr>\<rparr>)
     }
   }"

text \<open>
  0x0100, terminal registration. The model and the terminal id are appended to what the
  parse view already holds (the source does not clear them), up to the first zero byte.
  The plate number has \<^verbatim>\<open>size_t len = msglen - 37\<close> bytes.
\<close>

function copy_until_zero ::
  "InputBuffer \<Rightarrow> nat \<Rightarrow> nat \<Rightarrow> nat \<Rightarrow> byte list \<Rightarrow> byte list option" where
  "copy_until_zero inp pos n i acc =
     (if i < n then do {
        b \<leftarrow> byte_at inp (pos + i);
        if b = 0 then Some acc else copy_until_zero inp pos n (i + 1) (acc @ [b])
      } else Some acc)"
  by pat_completeness auto
termination
  by (relation "measure (\<lambda>(inp, pos, n, i, acc). n - i)") auto

declare copy_until_zero.simps [simp del]

definition TerminalRegister_body ::
  "InputBuffer \<Rightarrow> ProtocolView \<Rightarrow> (int \<times> ProtocolView) option" where
  "TerminalRegister_body inp v = do {
     let pos = MSGBODY_NOPACKET_POS;
     let info = register_info v;
     province \<leftarrow> swapped16_at inp pos;
     city \<leftarrow> swapped16_at inp (pos + 2);
     manufacturer \<leftarrow> read_bytes inp (pos + 4) 5;
     model_bytes \<leftarrow> copy_until_zero inp (pos + 9) 20 0 (terminal_model info);
     id_bytes \<leftarrow> copy_until_zero inp (pos + 29) 7 0 (terminal_id info);
     color \<leftarrow> byte_at inp (pos + 36);
     let info1 = info\<lparr>province_id := province, city_id := city,
                       manufacturer_id := manufacturer, terminal_model := model_bytes,
                       terminal_id := id_bytes, car_plate_color := color\<rparr>;
     if color \<noteq> kVin then do {
       let len = (int (msg_len v) - 37) mod 2 ^ 64;
       plate \<leftarrow> bytes_between inp (int (pos + 37)) (int (pos + 37) + len);
       Some (0, v\<lparr>register_info := info1\<lparr>car_plate_num := map (\<lambda>b. char_of (unat b)) plate\<rparr>\<rparr>)
     } else Some (0, v\<lparr>register_info := info1\<rparr>)
   }"

text \<open>
  0x8100, terminal registration response. The handler reads at the position of an
  unsegmented body whatever the packet bit says; the authentication code is the range
  \<^verbatim>\<open>[begin, begin + msglen - 3)\<close> with \<^verbatim>\<open>begin = in.begin() + pos + 3\<close>.
\<close>

definition TerminalRegisterResponse_body ::
  "InputBuffer \<Rightarrow> ProtocolView \<Rightarrow> (int \<times> ProtocolView) option" where
  "TerminalRegisterResponse_body inp v = do {
     let pos = MSGBODY_NOPACKET_POS;
     b0 \<leftarrow> byte_at inp pos;
     b1 \<leftarrow> byte_at inp (pos + 1);
     b2 \<leftarrow> byte_at inp (pos + 2);
     let v1 = v\<lparr>respone_flow_num := mul256_add b0 b1, respone_result := b2\<rparr>;
     if respone_result v1 = 0 then do {
       code \<leftarrow> bytes_between inp (int (pos + 3)) (int (pos + 3) + int (msg_len v1) - 3);
       Some (0, v1\<lparr>authentication_code := code\<rparr>)
     } else Some (0, v1)
   }"

text \<open>0x0003, terminal logout: empty body.\<close>

definition TerminalLogOut_body ::
  "InputBuffer \<Rightarrow> ProtocolView \<Rightarrow> (int \<times> ProtocolView) option" where
  "TerminalLogOut_body inp v = Some (0, v)"

text \<open>0x0102, terminal authentication: the body is the authentication code.\<close>

definition TerminalAuthentication_body ::
  "InputBuffer \<Rightarrow> ProtocolView \<Rightarrow> (int \<times> ProtocolView) option" where
  "TerminalAuthentication_body inp v = do {
     let pos = body_pos v;
     code \<leftarrow> bytes_between inp (int pos) (int pos + int (msg_len v));
     Some (0, v\<lparr>authentication_code := code\<rparr>)
   }"

text \<open>
  0x8103, set terminal parameters. Each round of
  \<^verbatim>\<open>for (int i = 0; i < cnt; ++i)\<close> reads a 32-bit id, then a length byte and that
  many value bytes, and inserts the pair; \<open>pos\<close> is a \<open>uint16_t\<close>.
\<close>

function terminal_parameter_items ::
  "InputBuffer \<Rightarrow> nat \<Rightarrow> nat \<Rightarrow> nat \<Rightarrow> TerminalParameters \<Rightarrow> TerminalParameters option" where
  "terminal_parameter_items inp cnt i pos paras =
     (if i < cnt then do {
        param_id \<leftarrow> swapped32_at inp pos;
        let pos1 = (pos + 4) mod 65536;
        n \<leftarrow> byte_at inp pos1;
        param_value \<leftarrow> bytes_between inp (int pos1 + 1) (int pos1 + 1 + int (unat n));
        terminal_parameter_items inp cnt (i + 1) ((pos1 + (1 + unat n)) mod 65536)
          (paras_insert paras param_id param_value)
      } else Some paras)"
  by pat_completeness auto
termination
  by (relation "measure (\<lambda>(inp, cnt, i, pos, paras). cnt - i)") auto

declare terminal_parameter_items.simps [simp del]

definition SetTerminalParameters_body ::
  "InputBuffer \<Rightarrow> ProtocolView \<Rightarrow> (int \<times> ProtocolView) option" where
  "SetTerminalParameters_body inp v =
     (let pos = body_pos v in
      if msg_len v < 1 then Some (-1, v)
      else do {
        c \<leftarrow> byte_at inp pos;
        paras \<leftarrow> terminal_parameter_items inp (unat c) 0 (pos + 1) Map.empty;
        Some (0, v\<lparr>terminal_parameters := paras\<rparr>)
      })"

text \<open>0x8104, query terminal parameters: empty body; the id list is cleared.\<close>

definition GetTerminalParameters_body ::
  "InputBuffer \<Rightarrow> ProtocolView \<Rightarrow> (int \<times> ProtocolView) option" where
  "GetTerminalParameters_body inp v = Some (0, v\<lparr>terminal_parameter_ids := []\<rparr>)"

text \<open>0x8106, query specific terminal parameters.\<close>

function parameter_id_list ::
  "InputBuffer \<Rightarrow> byte \<Rightarrow> nat \<Rightarrow> nat \<Rightarrow> 32 word list \<Rightarrow> 32 word list option" where
  "parameter_id_list inp cnt i pos ids =
     (if i < unat cnt then do {
        param_id \<leftarrow> swapped32_at inp pos;
        parameter_id_list inp cnt (i + 1) (pos + 4) (ids @ [param_id])
      } else Some ids)"
  by pat_completeness auto
termination
  by (relation "measure (\<lambda>(inp, cnt, i, pos, ids). unat cnt - i)") auto

declare parameter_id_list.simps [simp del]

definition GetSpecificTerminalParameters_body ::
  "InputBuffer \<Rightarrow> ProtocolView \<Rightarrow> (int \<times> ProtocolView) option" where
  "GetSpecificTerminalParameters_body inp v =
     (let pos = body_pos v in
      if msg_len v < 1 then Some (-1, v)
      else do {
        c \<leftarrow> byte_at inp pos;
        if int (msg_len v) \<noteq> int (unat c) * 4 + 1 then Some (-1, v)
        else do {
          ids \<leftarrow> parameter_id_list inp c 0 (pos + 1) [];
          Some (0, v\<lparr>terminal_parameter_ids := ids\<rparr>)
        }
      })"

text \<open>0x0104, query terminal parameters response: a flow number, then as 0x8103.\<close>

definition GetTerminalParametersResponse_body ::
  "InputBuffer \<Rightarrow> ProtocolView \<Rightarrow> (int \<times> ProtocolView) option" where
  "GetTerminalParametersResponse_body inp v =
     (let pos = body_pos v in
      if msg_len v < 3 then Some (-1, v)
      else do {
        flow \<leftarrow> swapped16_at inp pos;
        c \<leftarrow> byte_at inp (pos + 2);
        paras \<leftarrow> terminal_parameter_items inp (unat c) 0 (pos + 3) Map.empty;
        Some (0, v\<lparr>respone_flow_num := flow, terminal_parameters := paras\<rparr>)
      })"

text \<open>
  0x8108, issue terminal upgrade package. The total length is the \<open>int\<close> expression
  \<^verbatim>\<open>in[pos] * 65536 * 256 + in[pos + 1] * 65536 + in[pos + 2] * 256 + in[pos + 3]\<close>,
  whose first product overflows a 32-bit \<open>int\<close> from \<^verbatim>\<open>in[pos] = 128\<close> on;
  \<^verbatim>\<open>content_len\<close> is a \<open>uint16_t\<close>.
\<close>

definition TerminalUpgrade_body ::
  "InputBuffer \<Rightarrow> ProtocolView \<Rightarrow> (int \<times> ProtocolView) option" where
  "TerminalUpgrade_body inp v = do {
     let beg = body_pos v;
     kind \<leftarrow> byte_at inp beg;
     manufacturer \<leftarrow> read_bytes inp (beg + 1) 5;
     let pos = beg + 6;
     n \<leftarrow> byte_at inp pos;
     version_bytes \<leftarrow> read_bytes inp (pos + 1) (unat n);
     let pos = pos + (unat n + 1);
     b0 \<leftarrow> byte_at inp pos;
     b1 \<leftarrow> byte_at inp (pos + 1);
     b2 \<leftarrow> byte_at inp (pos + 2);
     b3 \<leftarrow> byte_at inp (pos + 3);
     total \<leftarrow> (if unat b0 * 65536 * 256 < 2 ^ 31
               then Some (unat b0 * 65536 * 256 + unat b1 * 65536 + unat b2 * 256 + unat b3)
               else None);
     let info = (upgrade_info v)\<lparr>upgrade_type := kind,
                                   upgrade_manufacturer_id := manufacturer,
                                   version_id := map (\<lambda>b. char_of (unat b)) version_bytes,
                                   upgrade_data_total_len := word_of_nat total\<rparr>;
     let pos = pos + 4;
     let content_len = nat ((int (msg_len v) - (int pos - int beg)) mod 65536);
     if content_len + 9 + length (version_id info) > msg_len v
     then Some (-1, v\<lparr>upgrade_info := info\<rparr>)
     else do {
       content \<leftarrow> bytes_between inp (int pos) (int pos + int content_len);
       Some (0, v\<lparr>upgrade_info := info\<lparr>upgrade_data := content\<rparr>\<rparr>)
     }
   }"

text \<open>0x0108, terminal upgrade result notification.\<close>

definition TerminalUpgradeResultReport_body ::
  "InputBuffer \<Rightarrow> ProtocolView \<Rightarrow> (int \<times> ProtocolView) option" where
  "TerminalUpgradeResultReport_body inp v = do {
     let pos = body_pos v;
     kind \<leftarrow> byte_at inp pos;
     res \<leftarrow> byte_at inp (pos + 1);
     Some (0, v\<lparr>upgrade_info := (upgrade_info v)\<lparr>upgrade_type := kind, upgrade_result := res\<rparr>\<rparr>)
   }"

text \<open>
  0x0200, location report, and 0x0201, its query response, decode the same 28-byte basic
  block and the same list of additional items. \<^verbatim>\<open>end\<close> is a \<open>uint8_t\<close>, so inside
  the loop \<open>pos \<le> end - 2 \<le> 253\<close> and the \<open>uint16_t\<close> position never wraps.
\<close>

definition location_basic_at ::
  "InputBuffer \<Rightarrow> nat \<Rightarrow> LocationBasicInformation \<Rightarrow> LocationBasicInformation option" where
  "location_basic_at inp pos info = do {
     alarm_flags \<leftarrow> swapped32_at inp pos;
     status_flags \<leftarrow> swapped32_at inp (pos + 4);
     lat \<leftarrow> swapped32_at inp (pos + 8);
     lon \<leftarrow> swapped32_at inp (pos + 12);
     alt \<leftarrow> swapped16_at inp (pos + 16);
     spd \<leftarrow> swapped16_at inp (pos + 18);
     dir \<leftarrow> swapped16_at inp (pos + 20);
     bcd \<leftarrow> bytes_between inp (int pos + 22) (int pos + 28);
     Some (info\<lparr>alarm := alarm_flags, status := status_flags, latitude := lat,
                 longitude := lon, altitude := alt, speed := spd, bearing := dir,
                 time := BcdToStringFillZero bcd\<rparr>)
   }"

function location_extension_items ::
  "InputBuffer \<Rightarrow> byte \<Rightarrow> nat \<Rightarrow> LocationExtensions \<Rightarrow> (int \<times> LocationExtensions) option" where
  "location_extension_items inp end_pos pos ext =
     (if int pos \<le> int (unat end_pos) - 2 then do {
        n \<leftarrow> byte_at inp (pos + 1);
        if int pos + 1 + int (unat n) > int (unat end_pos) then Some (-1, ext)
        else do {
          item_content \<leftarrow> bytes_between inp (int pos + 2) (int pos + 2 + int (unat n));
          item_id \<leftarrow> byte_at inp pos;
          location_extension_items inp end_pos (pos + (2 + unat n)) (ext(item_id \<mapsto> item_content))
        }
      } else Some (0, ext))"
  by pat_completeness auto
termination
proof (relation "measure (\<lambda>(inp, end_pos, pos, ext). unat end_pos - pos)", goal_cases)
  case 1
  show ?case by simp
next
  case (2 inp end_pos pos ext n item_content item_id)
  from 2(1) have "pos + 2 \<le> unat end_pos" by linarith
  then show ?case by simp
qed

declare location_extension_items.simps [simp del]

definition LocationReport_body ::
  "InputBuffer \<Rightarrow> ProtocolView \<Rightarrow> (int \<times> ProtocolView) option" where
  "LocationReport_body inp v =
     (if msg_len v < 28 then Some (-1, v)
      else do {
        let pos = body_pos v;
        info \<leftarrow> location_basic_at inp pos (location_info v);
        let v1 = v\<lparr>location_info := info\<rparr>;
        if msg_len v > 28 then do {
          let end_pos = (word_of_nat (msg_len v + pos) :: byte);
          (rc, ext) \<leftarrow> location_extension_items inp end_pos (pos + 28) (location_extension v1);
          Some (rc, v1\<lparr>location_extension := ext\<rparr>)
        } else Some (0, v1)
      })"

text \<open>0x8201, location information query: empty body.\<close>

definition GetLocationInformation_body ::
  "InputBuffer \<Rightarrow> ProtocolView \<Rightarrow> (int \<times> ProtocolView) option" where
  "GetLocationInformation_body inp v = Some (0, v)"

text \<open>
  0x0201, location information query response. The flow number is
  \<^verbatim>\<open>in[pos] * 256 + in[pos]\<close>.
\<close>

definition GetLocationInformationResponse_body ::
  "InputBuffer \<Rightarrow> ProtocolView \<Rightarrow> (int \<times> ProtocolView) option" where
  "GetLocationInformationResponse_body inp v =
     (if msg_len v < 30 then Some (-1, v)
      else do {
        let pos = body_pos v;
        b \<leftarrow> byte_at inp pos;
        let v0 = v\<lparr>respone_flow_num := mul256_add b b\<rparr>;
        let pos = pos + 2;
        info \<leftarrow> location_basic_at inp pos (location_info v0);
        let v1 = v0\<lparr>location_info := info\<rparr>;
        if msg_len v > 28 then do {
          let end_pos = (word_of_nat (msg_len v + pos) :: byte);
          (rc, ext) \<leftarrow> location_extension_items inp end_pos (pos + 28) (location_extension v1);
          Some (rc, v1\<lparr>location_extension := ext\<rparr>)
        } else Some (0, v1)
      })"

text \<open>0x8202, temporary location tracking control.\<close>

definition LocationTrackingControl_body ::
  "InputBuffer \<Rightarrow> ProtocolView \<Rightarrow> (int \<times> ProtocolView) option" where
  "LocationTrackingControl_body inp v =
     (if msg_len v \<noteq> 6 then Some (-1, v)
      else do {
        let pos = body_pos v;
        b0 \<leftarrow> byte_at inp pos;
        b1 \<leftarrow> byte_at inp (pos + 1);
        duration \<leftarrow> swapped32_at inp (pos + 2);
        Some (0, v\<lparr>location_tracking_control :=
                      (location_tracking_control v)\<lparr>interval := mul256_add b0 b1,
                                                      tracking_time := duration\<rparr>\<rparr>)
      })"

text \<open>
  0x8604, set polygon area. area_route.h is not among the sources, so the positions of
  the flags \<^verbatim>\<open>by_time\<close> and \<^verbatim>\<open>speed_limit\<close> in the attribute word are parameters.
  Both BCD vectors are assigned the empty range
  \<^verbatim>\<open>[in.begin() + pos, in.begin() + pos)\<close>. Inside the vertex loop
  \<open>pos < end \<le> 17 + 1023\<close>, so the \<open>uint16_t\<close> position never wraps.
\<close>

function polygon_vertices ::
  "InputBuffer \<Rightarrow> nat \<Rightarrow> nat \<Rightarrow> LocationPoint list \<Rightarrow> LocationPoint list option" where
  "polygon_vertices inp end_pos pos vs =
     (if pos < end_pos then do {
        lat \<leftarrow> swapped32_at inp pos;
        lon \<leftarrow> swapped32_at inp (pos + 4);
        polygon_vertices inp end_pos (pos + 8)
          (vs @ [\<lparr>latitude_e6 = lat, longitude_e6 = lon\<rparr>])
      } else Some vs)"
  by pat_completeness auto
termination
  by (relation "measure (\<lambda>(inp, end_pos, pos, vs). end_pos - pos)") auto

declare polygon_vertices.simps [simp del]

text \<open>
  The two optional blocks of the handler, each guarded by a flag of the attribute word
  just stored in \<^verbatim>\<open>polygon_area\<close>: the start and stop time, and the speed limit.
  Each returns the area and the position after the block.
\<close>

definition polygon_times ::
  "nat \<Rightarrow> InputBuffer \<Rightarrow> PolygonArea \<Rightarrow> nat \<Rightarrow> (PolygonArea \<times> nat) option" where
  "polygon_times by_time inp area pos =
     (if bit (area_attribute area) by_time then do {
        bcd \<leftarrow> bytes_between inp (int pos) (int pos);
        let area = area\<lparr>start_time := BcdToStringFillZero bcd\<rparr>;
        let pos = pos + 6;
        bcd \<leftarrow> bytes_between inp (int pos) (int pos);
        Some (area\<lparr>stop_time := BcdToStringFillZero bcd\<rparr>, pos + 6)
      } else Some (area, pos))"

definition polygon_speed ::
  "nat \<Rightarrow> InputBuffer \<Rightarrow> PolygonArea \<Rightarrow> nat \<Rightarrow> (PolygonArea \<times> nat) option" where
  "polygon_speed speed_limit inp area pos =
     (if bit (area_attribute area) speed_limit then do {
        limit \<leftarrow> swapped16_at inp pos;
        duration \<leftarrow> byte_at inp (pos + 2);
        Some (area\<lparr>max_speed := limit, overspeed_time := duration\<rparr>, pos + 3)
      } else Some (area, pos))"

definition SetPolygonArea_body ::
  "nat \<Rightarrow> nat \<Rightarrow> InputBuffer \<Rightarrow> ProtocolView \<Rightarrow> (int \<times> ProtocolView) option" where
  "SetPolygonArea_body by_time speed_limit inp v =
     (if msg_len v < 28 then Some (-1, v)
      else do {
        let pos = body_pos v;
        let end_pos = pos + msg_len v;
        ident \<leftarrow> swapped32_at inp pos;
        attr \<leftarrow> swapped16_at inp (pos + 4);
        let area = (polygon_area v)\<lparr>area_id := ident, area_attribute := attr\<rparr>;
        (area, pos) \<leftarrow> polygon_times by_time inp area (pos + 6);
        (area, pos) \<leftarrow> polygon_speed speed_limit inp area pos;
        cnt \<leftarrow> swapped16_at inp pos;
        let pos = pos + 2;
        if int end_pos - int pos \<noteq> int (unat cnt) * 8
        then Some (-1, v\<lparr>polygon_area := area\<rparr>)
        else do {
          vs \<leftarrow> polygon_vertices inp end_pos pos [];
          Some (0, v\<lparr>polygon_area := area\<lparr>vertices := vs\<rparr>\<rparr>)
        }
      })"

text \<open>0x8605, delete polygon area.\<close>

function polygon_area_ids ::
  "InputBuffer \<Rightarrow> nat \<Rightarrow> byte \<Rightarrow> nat \<Rightarrow> 32 word list \<Rightarrow> 32 word list option" where
  "polygon_area_ids inp pos cnt i ids =
     (if i < unat cnt then do {
        ident \<leftarrow> swapped32_at inp (pos + 1 + i * 4);
        polygon_area_ids inp pos cnt (i + 1) (ids @ [ident])
      } else Some ids)"
  by pat_completeness auto
termination
  by (relation "measure (\<lambda>(inp, pos, cnt, i, ids). unat cnt - i)") auto

declare polygon_area_ids.simps [simp del]

definition DeletePolygonArea_body ::
  "InputBuffer \<Rightarrow> ProtocolView \<Rightarrow> (int \<times> ProtocolView) option" where
  "DeletePolygonArea_body inp v = do {
     let pos = body_pos v;
     c \<leftarrow> byte_at inp pos;
     if int (unat c) * 4 + 1 \<noteq> int (msg_len v) then Some (-1, v)
     else do {
       ids \<leftarrow> polygon_area_ids inp pos c 0 [];
       Some (0, v\<lparr>polygon_area_id := ids\<rparr>)
     }
   }"

text \<open>0x0801, multimedia data upload.\<close>

definition MultimediaDataUpload_body ::
  "InputBuffer \<Rightarrow> ProtocolView \<Rightarrow> (int \<times> ProtocolView) option" where
  "MultimediaDataUpload_body inp v = do {
     let pos = body_pos v;
     ident \<leftarrow> swapped32_at inp pos;
     kind \<leftarrow> byte_at inp (pos + 4);
     fmt \<leftarrow> byte_at inp (pos + 5);
     event \<leftarrow> byte_at inp (pos + 6);
     channel \<leftarrow> byte_at inp (pos + 7);
     location \<leftarrow> bytes_between inp (int pos + 8) (int pos + 36);
     content \<leftarrow> bytes_between inp (int pos + 36) (int pos + int (msg_len v));
     Some (0, v\<lparr>multimedia_upload :=
                   (multimedia_upload v)\<lparr>media_id := ident, media_type := kind,
                                           media_format := fmt, media_event := event,
                                           channel_id := channel,
                                           loaction_report_body := location,
                                           media_data := content\<rparr>\<rparr>)
   }"

text \<open>0x8800, multimedia data upload response.\<close>

function reload_ids ::
  "InputBuffer \<Rightarrow> nat \<Rightarrow> nat \<Rightarrow> nat \<Rightarrow> 16 word list \<Rightarrow> 16 word list option" where
  "reload_ids inp pos cnt i ids =
     (if i < cnt then do {
        ident \<leftarrow> swapped16_at inp (pos + 5 + 2 * i);
        reload_ids inp pos cnt (i + 1) (ids @ [ident])
      } else Some ids)"
  by pat_completeness auto
termination
  by (relation "measure (\<lambda>(inp, pos, cnt, i, ids). cnt - i)") auto

declare reload_ids.simps [simp del]

definition MultimediaDataUploadResponse_body ::
  "InputBuffer \<Rightarrow> ProtocolView \<Rightarrow> (int \<times> ProtocolView) option" where
  "MultimediaDataUploadResponse_body inp v = do {
     let pos = body_pos v;
     ident \<leftarrow> swapped32_at inp pos;
     let resp = (multimedia_upload_response v)\<lparr>response_media_id := ident\<rparr>;
     if msg_len v > 4 then do {
       c \<leftarrow> byte_at inp (pos + 4);
       ids \<leftarrow> reload_ids inp pos (unat c) 0 [];
       Some (0, v\<lparr>multimedia_upload_response := resp\<lparr>reload_packet_ids := ids\<rparr>\<rparr>)
     } else Some (0, v\<lparr>multimedia_upload_response := resp\<rparr>)
   }"

subsection \<open>The registry\<close>

text \<open>
  \<^verbatim>\<open>parser->insert(pair)\<close> on the \<^verbatim>\<open>std::map\<close> adds the pair unless the key is
  present and reports whether it did.
\<close>

definition parser_insert :: "Parser \<Rightarrow> 16 word \<times> ParseHandler \<Rightarrow> bool \<times> Parser" where
  "parser_insert parser pair =
     (case parser (fst pair) of
        None \<Rightarrow> (True, parser(fst pair \<mapsto> snd pair))
      | Some _ \<Rightarrow> (False, parser))"

definition kTerminalGeneralResponse :: "16 word" where "kTerminalGeneralResponse = 0x0001"
definition kPlatformGeneralResponse :: "16 word" where "kPlatformGeneralResponse = 0x8001"
definition kTerminalHeartBeat :: "16 word" where "kTerminalHeartBeat = 0x0002"
definition kFillPacketRequest :: "16 word" where "kFillPacketRequest = 0x8003"
definition kTerminalRegister :: "16 word" where "kTerminalRegister = 0x0100"
definition kTerminalRegisterResponse :: "16 word" where "kTerminalRegisterResponse = 0x8100"
definition kTerminalLogOut :: "16 word" where "kTerminalLogOut = 0x0003"
definition kTerminalAuthentication :: "16 word" where "kTerminalAuthentication = 0x0102"
definition kSetTerminalParameters :: "16 word" where "kSetTerminalParameters = 0x8103"
definition kGetTerminalParameters :: "16 word" where "kGetTerminalParameters = 0x8104"
definition kGetSpecificTerminalParameters :: "16 word" where "kGetSpecificTerminalParameters = 0x8106"
definition kGetTerminalParametersResponse :: "16 word" where "kGetTerminalParametersResponse = 0x0104"
definition kTerminalUpgrade :: "16 word" where "kTerminalUpgrade = 0x8108"
definition kTerminalUpgradeResultReport :: "16 word" where "kTerminalUpgradeResultReport = 0x0108"
definition kLocationReport :: "16 word" where "kLocationReport = 0x0200"
definition kGetLocationInformation :: "16 word" where "kGetLocationInformation = 0x8201"
definition kGetLocationInformationResponse :: "16 word" where "kGetLocationInformationResponse = 0x0201"
definition kLocationTrackingControl :: "16 word" where "kLocationTrackingControl = 0x8202"
definition kSetPolygonArea :: "16 word" where "kSetPolygonArea = 0x8604"
definition kDeletePolygonArea :: "16 word" where "kDeletePolygonArea = 0x8605"
definition kMultimediaDataUpload :: "16 word" where "kMultimediaDataUpload = 0x0801"
definition kMultimediaDataUploadResponse :: "16 word" where "kMultimediaDataUploadResponse = 0x8800"

text \<open>
  The pairs \<^verbatim>\<open>JT808FrameParserInit\<close> inserts, in the order of the source, and the
  initialisation itself, which inserts them one after the other into the map it is given.
\<close>

definition builtin_handlers :: "nat \<Rightarrow> nat \<Rightarrow> (16 word \<times> ParseHandler) list" where
  "builtin_handlers by_time speed_limit =
     [(kTerminalGeneralResponse, parse_handler TerminalGeneralResponse_body),
      (kPlatformGeneralResponse, parse_handler PlatformGeneralResponse_body),
      (kTerminalHeartBeat, parse_handler TerminalHeartBeat_body),
      (kFillPacketRequest, parse_handler FillPacketRequest_body),
      (kTerminalRegister, parse_handler TerminalRegister_body),
      (kTerminalRegisterResponse, parse_handler TerminalRegisterResponse_body),
      (kTerminalLogOut, parse_handler TerminalLogOut_body),
      (kTerminalAuthentication, parse_handler TerminalAuthentication_body),
      (kSetTerminalParameters, parse_handler SetTerminalParameters_body),
      (kGetTerminalParameters, parse_handler GetTerminalParameters_body),
      (kGetSpecificTerminalParameters, parse_handler GetSpecificTerminalParameters_body),
      (kGetTerminalParametersResponse, parse_handler GetTerminalParametersResponse_body),
      (kTerminalUpgrade, parse_handler TerminalUpgrade_body),
      (kTerminalUpgradeResultReport, parse_handler TerminalUpgradeResultReport_body),
      (kLocationReport, parse_handler LocationReport_body),
      (kGetLocationInformation, parse_handler GetLocationInformation_body),
      (kGetLocationInformationResponse, parse_handler GetLocationInformationResponse_body),
      (kLocationTrackingControl, parse_handler LocationTrackingControl_body),
      (kSetPolygonArea, parse_handler (SetPolygonArea_body by_time speed_limit)),
      (kDeletePolygonArea, parse_handler DeletePolygonArea_body),
      (kMultimediaDataUpload, parse_handler MultimediaDataUpload_body),
      (kMultimediaDataUploadResponse, parse_handler MultimediaDataUploadResponse_body)]"

definition JT808FrameParserInit :: "nat \<Rightarrow> nat \<Rightarrow> Parser \<Rightarrow> int \<times> Parser" where
  "JT808FrameParserInit by_time speed_limit parser =
     (0, foldl (\<lambda>m pair. snd (parser_insert m pair)) parser (builtin_handlers by_time speed_limit))"

text \<open>\<^verbatim>\<open>JT808FrameParserAppend\<close> and \<^verbatim>\<open>JT808FrameParserOverride\<close> on a non-null registry.\<close>

definition JT808FrameParserAppend :: "Parser \<Rightarrow> 16 word \<times> ParseHandler \<Rightarrow> bool \<times> Parser" where
  "JT808FrameParserAppend parser pair = parser_insert parser pair"


subsection \<open>Notions used in the statements\<close>

text \<open>
  The block a handler is called with: \<^verbatim>\<open>JT808FrameParse\<close> has stored the decoded
  header in \<^verbatim>\<open>para->parse.msg_head\<close> and copied its phone number to
  \<^verbatim>\<open>para->msg_head.phone_num\<close>.
\<close>

definition dispatched_block :: "ProtocolParameter \<Rightarrow> MsgHead \<Rightarrow> ProtocolParameter" where
  "dispatched_block p h =
     \<lparr>send = (send p)\<lparr>msg_head := (msg_head (send p))\<lparr>phone_num := phone_num h\<rparr>\<rparr>,
      parse = (parse p)\<lparr>msg_head := h\<rparr>\<rparr>"

text \<open>
  A handler that, whenever it returns, leaves a block whose members outside
  \<^verbatim>\<open>parse\<close> are as it found them; and the contract parser.h documents for a
  \<^verbatim>\<open>ParseHandler\<close>: \<^emph>\<open>returns 0 on success, -1 on failure\<close>.
\<close>

definition writes_parse_only :: "ParseHandler \<Rightarrow> bool" where
  "writes_parse_only handler =
     (\<forall>inp p rc q. handler inp (Some p) = Some (rc, q) \<longrightarrow>
        (\<exists>p'. q = Some p' \<and> send p' = send p))"


text \<open>
  The wire format of a terminal parameter list, after the spec: a count byte, then for
  each item a 32-bit big-endian id, a length byte and that many value bytes. An item is
  given by its four id bytes and its value; \<open>be32\<close> is the big-endian value of four
  bytes, \<open>item_entry\<close> the pair of id and value an item stands for, and
  \<open>item_fits\<close> says that the value length fits the length byte.
\<close>

definition be32 :: "byte \<Rightarrow> byte \<Rightarrow> byte \<Rightarrow> byte \<Rightarrow> 32 word" where
  "be32 b0 b1 b2 b3 =
     word_of_nat (unat b0 * 16777216 + unat b1 * 65536 + unat b2 * 256 + unat b3)"

type_synonym wire_item = "byte \<times> byte \<times> byte \<times> byte \<times> byte list"

definition item_bytes :: "wire_item \<Rightarrow> byte list" where
  "item_bytes = (\<lambda>(b0, b1, b2, b3, val). [b0, b1, b2, b3, word_of_nat (length val)] @ val)"




text \<open>
  The registry after \<^verbatim>\<open>JT808FrameParserInit\<close> on an empty map, with \<^verbatim>\<open>by_time\<close> at
  bit 0 and \<^verbatim>\<open>speed_limit\<close> at bit 1 of the area attribute.
\<close>

definition standard_parser :: Parser where
  "standard_parser = snd (JT808FrameParserInit 0 1 Map.empty)"

subsection \<open>Example data\<close>

text \<open>A header with every field zero, and three frames with a one-byte body: the
  first sets the packet bit and is 19 bytes long, the second sets it and has the 20 bytes
  of a segmented frame with that body, the third is the second with the packet bit
  cleared.\<close>

definition zero_head :: MsgHead where
  "zero_head = \<lparr>msg_id = 0, msgbody_attr = 0, phone_num = [], msg_flow_num = 0,
                 total_packet = 0, packet_seq = 0\<rparr>"

definition short_segmented_frame :: InputBuffer where
  "short_segmented_frame =
     [0x7E, 0x00, 0x02, 0x20, 0x01, 0x01, 0x35, 0x23, 0x33, 0x95, 0x27, 0x00, 0x01,
      0x00, 0x03, 0x00, 0x02, 0xB5, 0x7E]"

definition segmented_frame :: InputBuffer where
  "segmented_frame =
     [0x7E, 0x00, 0x02, 0x20, 0x01, 0x01, 0x35, 0x23, 0x33, 0x95, 0x27, 0x00, 0x01,
      0x00, 0x03, 0x00, 0x02, 0x55, 0xE0, 0x7E]"

definition packet_bit_clear_frame :: InputBuffer where
  "packet_bit_clear_frame =
     [0x7E, 0x00, 0x02, 0x00, 0x01, 0x01, 0x35, 0x23, 0x33, 0x95, 0x27, 0x00, 0x01,
      0x00, 0x03, 0x00, 0x02, 0x55, 0xC0, 0x7E]"

text \<open>A value-initialised parameter block: integers zero, containers empty.\<close>

definition zero_view :: ProtocolView where
  "zero_view =
     \<lparr>respone_result = 0, respone_msg_id = 0, respone_flow_num = 0,
      msg_head = zero_head,
      register_info = \<lparr>province_id = 0, city_id = 0, manufacturer_id = [],
                       terminal_model = [], terminal_id = [], car_plate_color = 0,
                       car_plate_num = []\<rparr>,
      authentication_code = [],
      terminal_parameters = Map.empty,
      terminal_parameter_ids = [],
      location_info = \<lparr>alarm = 0, status = 0, latitude = 0, longitude = 0, altitude = 0,
                       speed = 0, bearing = 0, time = []\<rparr>,
      location_extension = Map.empty,
      location_tracking_control = \<lparr>interval = 0, tracking_time = 0\<rparr>,
      polygon_area = \<lparr>area_id = 0, area_attribute = 0, start_time = [], stop_time = [],
                      max_speed = 0, overspeed_time = 0, vertices = []\<rparr>,
      polygon_area_id = [],
      upgrade_info = \<lparr>upgrade_type = 0, upgrade_result = 0, upgrade_manufacturer_id = [],
                      version_id = [], upgrade_data_total_len = 0, upgrade_data = []\<rparr>,
      fill_packet = \<lparr>first_packet_msg_flow_num = 0, packet_id = []\<rparr>,
      multimedia_upload = \<lparr>media_id = 0, media_type = 0, media_format = 0, media_event = 0,
                           channel_id = 0, loaction_report_body = [], media_data = []\<rparr>,
      multimedia_upload_response = \<lparr>response_media_id = 0, reload_packet_ids = []\<rparr>,
      retain = [],
      version_info = \<lparr>version = [], rel_date = [], cpu_id = [], model = [], imei = [],
                      imsi = [], iccid = [], car_model = 0, vin = [], tot_mileage = 0,
                      tot_fuel = 0\<rparr>,
      license_data = \<lparr>card_info = \<lparr>name = [], country = [], citizen_id = [],
                                      expire_date = [], dob = [], license_type = [],
                                      gender = [], license_id = [], issuing_branch = [],
                                      track = []\<rparr>,
                      login_sts = 0, dlt_allow_flg = 0\<rparr>,
      can_data = \<lparr>nbr_of_data = 0, recv_time = [],
                  can_info = \<lparr>can_id = 0, can_bytes = []\<rparr>\<rparr>\<rparr>"

definition zero_para :: ProtocolParameter where
  "zero_para = \<lparr>send = zero_view, parse = zero_view\<rparr>"

text \<open>A block whose send view already holds the phone number of another terminal.\<close>

definition other_phone_para :: ProtocolParameter where
  "other_phone_para =
     \<lparr>send = zero_view\<lparr>msg_head := zero_head\<lparr>phone_num := ''013800000000''\<rparr>\<rparr>,
      parse = zero_view\<rparr>"

text \<open>
  Frames of the terminal with phone number 013523339527 and flow number 1, each with its
  XOR checksum: a heartbeat (0x0002, empty body); the same frame with both flag bytes
  replaced by 0x00; and an empty frame with message id 0x0705, for which
  \<^verbatim>\<open>JT808FrameParserInit\<close> registers no handler.
\<close>

definition heartbeat_frame :: InputBuffer where
  "heartbeat_frame =
     [0x7E, 0x00, 0x02, 0x00, 0x00, 0x01, 0x35, 0x23, 0x33, 0x95, 0x27, 0x00, 0x01, 0x95, 0x7E]"

definition unflagged_heartbeat_frame :: InputBuffer where
  "unflagged_heartbeat_frame =
     [0x00, 0x00, 0x02, 0x00, 0x00, 0x01, 0x35, 0x23, 0x33, 0x95, 0x27, 0x00, 0x01, 0x95, 0x00]"

definition unregistered_frame :: InputBuffer where
  "unregistered_frame =
     [0x7E, 0x07, 0x05, 0x00, 0x00, 0x01, 0x35, 0x23, 0x33, 0x95, 0x27, 0x00, 0x01, 0x95, 0x7E]"

text \<open>
  Frames that fail before a handler is looked up: one with the byte 0x03 after the
  escape byte 0x7D; the heartbeat frame with a wrong checksum byte; and a five-byte frame
  with its checksum, too short for a header.
\<close>

definition bad_escape_frame :: InputBuffer where
  "bad_escape_frame = [0x7E, 0x7D, 0x03, 0x7E]"

definition bad_checksum_frame :: InputBuffer where
  "bad_checksum_frame =
     [0x7E, 0x00, 0x02, 0x00, 0x00, 0x01, 0x35, 0x23, 0x33, 0x95, 0x27, 0x00, 0x01, 0x96, 0x7E]"

definition truncated_frame :: InputBuffer where
  "truncated_frame = [0x7E, 0x00, 0x02, 0x02, 0x7E]"



text \<open>
  Frames of the same terminal for the body handlers, each a well-formed frame with its
  checksum: a fill-packet request (0x8003) for the single packet id 01 02; the spec's
  set-terminal-parameters body (0x8103) with the parameter 0xF020; a location query
  response (0x0201) with flow number 01 02 and the 28-byte basic block; a polygon area
  (0x8604) with the \<^verbatim>\<open>by_time\<close> bit, two BCD times and one vertex; and a register
  response (0x8100) with flow number 12 34, result 0 and the code 41 42, once
  unsegmented and once with the packet bit and the two segmentation fields.
  \<open>head_of\<close> is the header such a frame decodes to.
\<close>

definition fill_packet_frame :: InputBuffer where
  "fill_packet_frame =
     [0x7E, 0x80, 0x03, 0x00, 0x05, 0x01, 0x35, 0x23, 0x33, 0x95, 0x27, 0x00, 0x01,
      0x00, 0x05, 0x01, 0x01, 0x02, 0x16, 0x7E]"


definition location_response_frame :: InputBuffer where
  "location_response_frame =
     [0x7E, 0x02, 0x01, 0x00, 0x1E, 0x01, 0x35, 0x23, 0x33, 0x95, 0x27, 0x00, 0x01,
      0x01, 0x02, 0x00, 0x00, 0x00, 0x02, 0x00, 0x00, 0x00, 0x03, 0x01, 0xE5, 0x9B, 0xCD,
      0x06, 0xFD, 0x08, 0x32, 0x00, 0x32, 0x02, 0x58, 0x00, 0x5A, 0x20, 0x07, 0x18, 0x12,
      0x00, 0x00, 0xE4, 0x7E]"

definition polygon_frame :: InputBuffer where
  "polygon_frame =
     [0x7E, 0x86, 0x04, 0x00, 0x1C, 0x01, 0x35, 0x23, 0x33, 0x95, 0x27, 0x00, 0x01,
      0x00, 0x00, 0x00, 0x01, 0x00, 0x01, 0x20, 0x07, 0x18, 0x12, 0x00, 0x00, 0x20, 0x07,
      0x19, 0x12, 0x00, 0x00, 0x00, 0x01, 0x01, 0xE5, 0x9B, 0xCD, 0x06, 0xFD, 0x08, 0x32,
      0x7A, 0x7E]"

definition head_of :: "16 word \<Rightarrow> 16 word \<Rightarrow> MsgHead" where
  "head_of ident attr =
     \<lparr>msg_id = ident, msgbody_attr = attr, phone_num = ''013523339527'', msg_flow_num = 1,
      total_packet = 0, packet_seq = 0\<rparr>"





section \<open>Properties\<close>

subsection \<open>Arithmetic of the decoded integers\<close>

lemma unat_byte_less: "unat (b :: byte) < 256"
  using unsigned_less [of b, where 'a = nat] by simp

lemma unat_mul256_add: "unat (mul256_add hi lo) = unat hi * 256 + unat lo"
proof -
  have "unat hi < 256" "unat lo < 256"
    by (rule unat_byte_less)+
  then have "unat hi * 256 + unat lo < 2 ^ LENGTH(16)" by simp
  then show ?thesis unfolding mul256_add_def unat_of_nat by (rule mod_less)
qed

subsection \<open>The header decoder\<close>

lemma bit_msglen_less: "bit_msglen attr < 1024"
proof -
  have "attr AND 0x3FF \<le> 0x3FF" by (rule word_and_le1)
  then have "unat (attr AND 0x3FF) \<le> unat (0x3FF :: 16 word)" by (simp add: word_le_nat_alt)
  then show ?thesis by (simp add: bit_msglen_def)
qed

lemma size_t_diff_eq_4:
  fixes d :: int
  assumes "- (2 ^ 64) + 4 < d" and "d < 2 ^ 64"
  shows "d mod 2 ^ 64 = 4 \<longleftrightarrow> d = 4"
proof (cases "0 \<le> d")
  case True
  with assms have "d mod 2 ^ 64 = d" by (simp add: mod_pos_pos_trivial)
  then show ?thesis by simp
next
  case False
  with assms have "(d + 2 ^ 64) mod 2 ^ 64 = d + 2 ^ 64"
    by (intro mod_pos_pos_trivial) simp_all
  then have "d mod 2 ^ 64 = d + 2 ^ 64" by simp
  with False assms show ?thesis by simp
qed

lemma packet_fields_present_iff:
  assumes "length inp < 2 ^ 64"
  shows "packet_fields_present inp attr \<longleftrightarrow>
     bit_packet attr = 1 \<and> length inp = 19 + bit_msglen attr"
proof -
  define d where "d = int (length inp) - 15 - int (bit_msglen attr)"
  have "int (length inp) < 2 ^ 64" using assms by (simp flip: of_nat_less_iff add: of_nat_power)
  then have "- (2 ^ 64) + 4 < d" "d < 2 ^ 64"
    using bit_msglen_less [of attr] by (simp_all add: d_def)
  then have "d mod 2 ^ 64 = 4 \<longleftrightarrow> d = 4" by (rule size_t_diff_eq_4)
  then show ?thesis unfolding packet_fields_present_def d_def by auto
qed

lemma head_reads_in_range:
  "packet_fields_present inp attr \<Longrightarrow> length inp < 2 ^ 64 \<Longrightarrow> 16 < length inp"
  by (simp add: packet_fields_present_iff)

lemma JT808FrameHeadParse_ok:
  assumes "15 \<le> length inp" and "BcdToString (take 6 (drop 5 inp)) = Some phone"
  shows "JT808FrameHeadParse inp h0 =
           (0, \<lparr>msg_id = mul256_add (inp ! 1) (inp ! 2),
                msgbody_attr = mul256_add (inp ! 3) (inp ! 4),
                phone_num = phone,
                msg_flow_num = mul256_add (inp ! 11) (inp ! 12),
                total_packet = (if packet_fields_present inp (mul256_add (inp ! 3) (inp ! 4))
                                then mul256_add (inp ! 13) (inp ! 14) else 0),
                packet_seq = (if packet_fields_present inp (mul256_add (inp ! 3) (inp ! 4))
                              then mul256_add (inp ! 15) (inp ! 16) else 0)\<rparr>)"
  using assms by (cases h0) (simp add: JT808FrameHeadParse_def Let_def)

lemma mod_1024_bytes:
  fixes h l :: nat
  assumes "l < 256"
  shows "(h * 256 + l) mod 1024 = h mod 4 * 256 + l"
proof -
  define q where "q = h div 4"
  define r where "r = h mod 4"
  have h: "h = q * 4 + r" by (simp add: q_def r_def)
  have r: "r < 4" by (simp add: r_def)
  have e: "h * 256 + l = q * 1024 + (r * 256 + l)" by (simp add: h)
  from r assms have lt: "r * 256 + l < 1024" by simp
  have "(h * 256 + l) mod 1024 = (q * 1024 + (r * 256 + l)) mod 1024" by (simp only: e)
  also have "\<dots> = (r * 256 + l) mod 1024" by (rule mod_mult_self3)
  also have "\<dots> = r * 256 + l" using lt by (rule mod_less)
  finally show ?thesis by (simp only: r_def)
qed

lemma div_8192_bytes:
  fixes h l :: nat
  assumes "l < 256"
  shows "(h * 256 + l) div 8192 = h div 32"
proof -
  define q where "q = h div 32"
  define r where "r = h mod 32"
  have h: "h = q * 32 + r" by (simp add: q_def r_def)
  have r: "r < 32" by (simp add: r_def)
  have "h * 256 + l = q * 8192 + (r * 256 + l)" by (simp add: h)
  moreover from r assms have "r * 256 + l < 8192" by simp
  ultimately show ?thesis by (simp add: q_def)
qed

lemma bit_msglen_mul256_add:
  "bit_msglen (mul256_add hi lo) = unat hi mod 4 * 256 + unat lo"
proof -
  have "mul256_add hi lo AND 0x3FF = take_bit 10 (mul256_add hi lo)"
    by (simp add: take_bit_eq_mask mask_eq_exp_minus_1)
  then have "bit_msglen (mul256_add hi lo) = take_bit 10 (unat (mul256_add hi lo))"
    by (simp only: bit_msglen_def unsigned_take_bit_eq)
  also have "\<dots> = (unat hi * 256 + unat lo) mod 1024"
    by (simp only: unat_mul256_add take_bit_eq_mod) simp
  also have "\<dots> = unat hi mod 4 * 256 + unat lo"
    using unat_byte_less [of lo] by (rule mod_1024_bytes)
  finally show ?thesis .
qed

lemma bit_packet_mul256_add:
  "bit_packet (mul256_add hi lo) = (if bit hi 5 then 1 else 0)"
proof -
  have "drop_bit 13 (mul256_add hi lo) AND 1 = take_bit 1 (drop_bit 13 (mul256_add hi lo))"
    by (simp add: take_bit_eq_mask)
  then have "bit_packet (mul256_add hi lo) = take_bit 1 (drop_bit 13 (unat (mul256_add hi lo)))"
    by (simp only: bit_packet_def unsigned_take_bit_eq unat_drop_bit_eq)
  also have "\<dots> = (unat hi * 256 + unat lo) div 8192 mod 2"
    by (simp only: unat_mul256_add take_bit_eq_mod drop_bit_eq_div) simp
  also have "\<dots> = unat hi div 32 mod 2"
    using unat_byte_less [of lo] by (simp only: div_8192_bytes)
  also have "\<dots> = (if bit hi 5 then 1 else 0)"
  proof -
    have "bit hi 5 \<longleftrightarrow> bit (unat hi) 5" by (simp add: bit_unsigned_iff)
    also have "\<dots> \<longleftrightarrow> odd (unat hi div 32)" by (simp only: bit_iff_odd) simp
    finally show ?thesis by (simp add: odd_iff_mod_2_eq_one)
  qed
  finally show ?thesis .
qed

text \<open>
  Claim C7, as amended. For every unescaped frame of at least 15 bytes (and fewer than
  \<open>2 ^ 64\<close>, the range of \<^verbatim>\<open>size_t\<close>) whose phone number is well-formed BCD,
  \<open>JT808FrameHeadParse\<close> returns 0 and stores the
  attribute word of bytes 3-4, whose packet bit is bit 5 of byte 3 and whose body length
  is the low two bits of byte 3 followed by byte 4. It sets \<open>total_packet\<close> to the
  big-endian value of bytes 13-14 and \<open>packet_seq\<close> to the big-endian value of bytes
  15-16 when that packet bit is 1 and the frame is exactly 19 bytes longer than that
  body length (the guard \<^verbatim>\<open>in.size() - 15 - msglen == 4\<close>), and sets both to zero in
  every other case, in particular when the packet bit is 0.
\<close>

theorem JT808FrameHeadParse_packet_fields:
  assumes "15 \<le> length inp" and "length inp < 2 ^ 64"
    and "list_all bcd_decimal (take 6 (drop 5 inp))"
  shows "\<exists>h. JT808FrameHeadParse inp h0 = (0, h) \<and>
           unat (msgbody_attr h) = unat (inp ! 3) * 256 + unat (inp ! 4) \<and>
           (bit_packet (msgbody_attr h) = 1 \<longleftrightarrow> bit (inp ! 3) 5) \<and>
           bit_msglen (msgbody_attr h) = unat (inp ! 3) mod 4 * 256 + unat (inp ! 4) \<and>
           (if bit (inp ! 3) 5 \<and>
               length inp = 19 + (unat (inp ! 3) mod 4 * 256 + unat (inp ! 4))
            then unat (total_packet h) = unat (inp ! 13) * 256 + unat (inp ! 14) \<and>
                 unat (packet_seq h) = unat (inp ! 15) * 256 + unat (inp ! 16)
            else total_packet h = 0 \<and> packet_seq h = 0)"
proof -
  from assms(3) obtain phone where "BcdToString (take 6 (drop 5 inp)) = Some phone"
    by (simp add: BcdToString_def)
  with assms(1) show ?thesis
    by (simp add: JT808FrameHeadParse_ok packet_fields_present_iff [OF assms(2)] unat_mul256_add
          bit_packet_mul256_add bit_msglen_mul256_add)
qed

text \<open>
  The theorem at three frames: the 20-byte segmented example frame, whose fields are 3
  and 2; the same frame with the packet bit cleared, whose fields are zero although
  bytes 13-16 are there; and the heartbeat frame, whose fields are zero.
\<close>

theorem JT808FrameHeadParse_packet_fields_witness:
  "(\<exists>h. JT808FrameHeadParse segmented_frame zero_head = (0, h) \<and>
        unat (msgbody_attr h) = 0x2001 \<and>
        unat (total_packet h) = 3 \<and> unat (packet_seq h) = 2) \<and>
   (\<exists>h. JT808FrameHeadParse packet_bit_clear_frame zero_head = (0, h) \<and>
        unat (msgbody_attr h) = 0x0001 \<and>
        total_packet h = 0 \<and> packet_seq h = 0) \<and>
   (\<exists>h. JT808FrameHeadParse heartbeat_frame zero_head = (0, h) \<and>
        unat (msgbody_attr h) = 0 \<and>
        total_packet h = 0 \<and> packet_seq h = 0)"
proof -
  have b: "bit (0x20 :: byte) 5" "\<not> bit (0 :: byte) 5" by (simp_all add: bit_iff_odd)
  have s: "15 \<le> length segmented_frame" "length segmented_frame < 2 ^ 64"
    "list_all bcd_decimal (take 6 (drop 5 segmented_frame))"
    by (simp_all add: segmented_frame_def bcd_decimal_def)
  have sv: "segmented_frame ! 3 = 0x20" "segmented_frame ! 4 = 1" "segmented_frame ! 13 = 0"
    "segmented_frame ! 14 = 3" "segmented_frame ! 15 = 0" "segmented_frame ! 16 = 2"
    "length segmented_frame = 20"
    by (simp_all add: segmented_frame_def)
  have c: "15 \<le> length packet_bit_clear_frame" "length packet_bit_clear_frame < 2 ^ 64"
    "list_all bcd_decimal (take 6 (drop 5 packet_bit_clear_frame))"
    by (simp_all add: packet_bit_clear_frame_def bcd_decimal_def)
  have cv: "packet_bit_clear_frame ! 3 = 0" "packet_bit_clear_frame ! 4 = 1"
    by (simp_all add: packet_bit_clear_frame_def)
  have h: "15 \<le> length heartbeat_frame" "length heartbeat_frame < 2 ^ 64"
    "list_all bcd_decimal (take 6 (drop 5 heartbeat_frame))"
    by (simp_all add: heartbeat_frame_def bcd_decimal_def)
  have hv: "heartbeat_frame ! 3 = 0" "heartbeat_frame ! 4 = 0"
    by (simp_all add: heartbeat_frame_def)
  have n: "unat (0x20 :: byte) = 32" "unat (1 :: byte) = 1" "unat (0 :: byte) = 0"
    "unat (3 :: byte) = 3" "unat (2 :: byte) = 2" by simp_all
  have 1: "\<exists>h. JT808FrameHeadParse segmented_frame zero_head = (0, h) \<and>
        unat (msgbody_attr h) = 0x2001 \<and>
        unat (total_packet h) = 3 \<and> unat (packet_seq h) = 2"
  proof -
    from JT808FrameHeadParse_packet_fields [OF s, of zero_head] obtain h
      where r: "JT808FrameHeadParse segmented_frame zero_head = (0, h)"
        and a: "unat (msgbody_attr h) = unat (segmented_frame ! 3) * 256 + unat (segmented_frame ! 4)"
        and f: "if bit (segmented_frame ! 3) 5 \<and>
                   length segmented_frame =
                     19 + (unat (segmented_frame ! 3) mod 4 * 256 + unat (segmented_frame ! 4))
                then unat (total_packet h) =
                       unat (segmented_frame ! 13) * 256 + unat (segmented_frame ! 14) \<and>
                     unat (packet_seq h) =
                       unat (segmented_frame ! 15) * 256 + unat (segmented_frame ! 16)
                else total_packet h = 0 \<and> packet_seq h = 0"
      by blast
    from a have "unat (msgbody_attr h) = 0x2001" unfolding sv n by simp
    moreover from f b have "unat (total_packet h) = 3 \<and> unat (packet_seq h) = 2"
      unfolding sv n by simp
    ultimately show ?thesis using r by blast
  qed
  have 2: "\<exists>h. JT808FrameHeadParse packet_bit_clear_frame zero_head = (0, h) \<and>
        unat (msgbody_attr h) = 0x0001 \<and>
        total_packet h = 0 \<and> packet_seq h = 0"
  proof -
    from JT808FrameHeadParse_packet_fields [OF c, of zero_head] obtain h
      where r: "JT808FrameHeadParse packet_bit_clear_frame zero_head = (0, h)"
        and a: "unat (msgbody_attr h) =
                  unat (packet_bit_clear_frame ! 3) * 256 + unat (packet_bit_clear_frame ! 4)"
        and f: "if bit (packet_bit_clear_frame ! 3) 5 \<and>
                   length packet_bit_clear_frame =
                     19 + (unat (packet_bit_clear_frame ! 3) mod 4 * 256 +
                           unat (packet_bit_clear_frame ! 4))
                then unat (total_packet h) =
                       unat (packet_bit_clear_frame ! 13) * 256 + unat (packet_bit_clear_frame ! 14) \<and>
                     unat (packet_seq h) =
                       unat (packet_bit_clear_frame ! 15) * 256 + unat (packet_bit_clear_frame ! 16)
                else total_packet h = 0 \<and> packet_seq h = 0"
      by blast
    from a have "unat (msgbody_attr h) = 0x0001" unfolding cv n by simp
    moreover from f b have "total_packet h = 0 \<and> packet_seq h = 0" unfolding cv by simp
    ultimately show ?thesis using r by blast
  qed
  have 3: "\<exists>h. JT808FrameHeadParse heartbeat_frame zero_head = (0, h) \<and>
        unat (msgbody_attr h) = 0 \<and>
        total_packet h = 0 \<and> packet_seq h = 0"
  proof -
    from JT808FrameHeadParse_packet_fields [OF h, of zero_head] obtain h
      where r: "JT808FrameHeadParse heartbeat_frame zero_head = (0, h)"
        and a: "unat (msgbody_attr h) = unat (heartbeat_frame ! 3) * 256 + unat (heartbeat_frame ! 4)"
        and f: "if bit (heartbeat_frame ! 3) 5 \<and>
                   length heartbeat_frame =
                     19 + (unat (heartbeat_frame ! 3) mod 4 * 256 + unat (heartbeat_frame ! 4))
                then unat (total_packet h) =
                       unat (heartbeat_frame ! 13) * 256 + unat (heartbeat_frame ! 14) \<and>
                     unat (packet_seq h) =
                       unat (heartbeat_frame ! 15) * 256 + unat (heartbeat_frame ! 16)
                else total_packet h = 0 \<and> packet_seq h = 0"
      by blast
    from a have "unat (msgbody_attr h) = 0" unfolding hv n by simp
    moreover from f b have "total_packet h = 0 \<and> packet_seq h = 0" unfolding hv by simp
    ultimately show ?thesis using r by blast
  qed
  from 1 2 3 show ?thesis by (intro conjI)
qed

text \<open>
  Claim C7 as stated fails: the 19-byte example frame has the packet bit set and bytes
  13-14 hold 3, but its length is not 19 plus its body length, and the decoder succeeds
  with \<open>total_packet = 0\<close>.
\<close>

theorem JT808FrameHeadParse_packet_bit_counterexample:
  "15 \<le> length short_segmented_frame \<and>
   bit_packet (msgbody_attr (snd (JT808FrameHeadParse short_segmented_frame zero_head))) = 1 \<and>
   fst (JT808FrameHeadParse short_segmented_frame zero_head) = 0 \<and>
   total_packet (snd (JT808FrameHeadParse short_segmented_frame zero_head)) = 0 \<and>
   mul256_add (short_segmented_frame ! 13) (short_segmented_frame ! 14) = 3"
  by code_simp

subsection \<open>The stages of \<open>JT808FrameParse\<close>\<close>


lemma JT808FrameParse_unescape:
  "ReverseEscape inp = None \<Longrightarrow> JT808FrameParse parser inp (Some p) = Some (-3, Some p)"
  by (simp add: JT808FrameParse_def)

lemma JT808FrameParse_short:
  "ReverseEscape inp = Some out \<Longrightarrow> length out < 3 \<Longrightarrow>
   JT808FrameParse parser inp (Some p) = None"
  by (simp add: JT808FrameParse_def)

lemma JT808FrameParse_checksum:
  "ReverseEscape inp = Some out \<Longrightarrow> 3 \<le> length out \<Longrightarrow> \<not> checksum_matches out \<Longrightarrow>
   JT808FrameParse parser inp (Some p) = Some (-4, Some p)"
  by (simp add: JT808FrameParse_def)

lemma JT808FrameParse_header:
  "ReverseEscape inp = Some out \<Longrightarrow> 3 \<le> length out \<Longrightarrow> checksum_matches out \<Longrightarrow>
   JT808FrameHeadParse out (msg_head (parse p)) = (rc, h) \<Longrightarrow> rc \<noteq> 0 \<Longrightarrow>
   JT808FrameParse parser inp (Some p) = Some (-5, Some (p\<lparr>parse := (parse p)\<lparr>msg_head := h\<rparr>\<rparr>))"
  by (simp add: JT808FrameParse_def)

lemma JT808FrameParse_unregistered:
  "ReverseEscape inp = Some out \<Longrightarrow> 3 \<le> length out \<Longrightarrow> checksum_matches out \<Longrightarrow>
   JT808FrameHeadParse out (msg_head (parse p)) = (0, h) \<Longrightarrow> parser (msg_id h) = None \<Longrightarrow>
   JT808FrameParse parser inp (Some p) = Some (-6, Some (dispatched_block p h))"
  by (cases p) (simp add: JT808FrameParse_def dispatched_block_def Let_def)

lemma JT808FrameParse_dispatch:
  "ReverseEscape inp = Some out \<Longrightarrow> 3 \<le> length out \<Longrightarrow> checksum_matches out \<Longrightarrow>
   JT808FrameHeadParse out (msg_head (parse p)) = (0, h) \<Longrightarrow>
   parser (msg_id h) = Some handler \<Longrightarrow>
   JT808FrameParse parser inp (Some p) = handler out (Some (dispatched_block p h))"
  by (cases p) (simp add: JT808FrameParse_def dispatched_block_def Let_def)

lemma writes_parse_only_parse_handler: "writes_parse_only (parse_handler body)"
  by (auto simp: writes_parse_only_def parse_handler_def split: option.splits)


lemma ReverseEscape_no_escape:
  "0x7D \<notin> set inp \<Longrightarrow> ReverseEscape inp = Some inp"
  by (induction inp rule: ReverseEscape.induct) auto

lemma JT808FrameParse_cases:
  assumes "JT808FrameParse parser inp (Some p) = Some (rc, q)"
  obtains
    (unescape) "ReverseEscape inp = None" "rc = -3" "q = Some p"
  | (checksum) out where "ReverseEscape inp = Some out" "3 \<le> length out"
      "\<not> checksum_matches out" "rc = -4" "q = Some p"
  | (header) out rc' h where "ReverseEscape inp = Some out" "3 \<le> length out"
      "checksum_matches out" "JT808FrameHeadParse out (msg_head (parse p)) = (rc', h)"
      "rc' \<noteq> 0" "rc = -5" "q = Some (p\<lparr>parse := (parse p)\<lparr>msg_head := h\<rparr>\<rparr>)"
  | (unregistered) out h where "ReverseEscape inp = Some out" "3 \<le> length out"
      "checksum_matches out" "JT808FrameHeadParse out (msg_head (parse p)) = (0, h)"
      "parser (msg_id h) = None" "rc = -6" "q = Some (dispatched_block p h)"
  | (dispatched) out h handler where "ReverseEscape inp = Some out" "3 \<le> length out"
      "checksum_matches out" "JT808FrameHeadParse out (msg_head (parse p)) = (0, h)"
      "parser (msg_id h) = Some handler"
      "handler out (Some (dispatched_block p h)) = Some (rc, q)"
proof (cases "ReverseEscape inp")
  case None
  with assms unescape show ?thesis by (simp add: JT808FrameParse_unescape)
next
  case (Some out)
  show ?thesis
  proof (cases "length out < 3")
    case True
    with assms Some show ?thesis by (simp add: JT808FrameParse_short)
  next
    case False
    then have len: "3 \<le> length out" by simp
    show ?thesis
    proof (cases "checksum_matches out")
      case False
      with assms Some len checksum show ?thesis by (simp add: JT808FrameParse_checksum)
    next
      case True
      obtain rc' h where hd: "JT808FrameHeadParse out (msg_head (parse p)) = (rc', h)"
        by (cases "JT808FrameHeadParse out (msg_head (parse p))")
      show ?thesis
      proof (cases "rc' = 0")
        case False
        from JT808FrameParse_header [where parser = parser, OF Some len True hd False] assms
        have "rc = -5" "q = Some (p\<lparr>parse := (parse p)\<lparr>msg_head := h\<rparr>\<rparr>)" by simp_all
        with Some len True hd False header show ?thesis by blast
      next
        case z: True
        with hd have hd0: "JT808FrameHeadParse out (msg_head (parse p)) = (0, h)" by simp
        show ?thesis
        proof (cases "parser (msg_id h)")
          case None
          from JT808FrameParse_unregistered [where parser = parser, OF Some len True hd0 None] assms
          have "rc = -6" "q = Some (dispatched_block p h)" by simp_all
          with Some len True hd0 None unregistered show ?thesis by blast
        next
          case (Some handler)
          from JT808FrameParse_dispatch [where parser = parser, OF \<open>ReverseEscape inp = Some out\<close> len True hd0 Some] assms
          have "handler out (Some (dispatched_block p h)) = Some (rc, q)" by simp
          with \<open>ReverseEscape inp = Some out\<close> len True hd0 Some dispatched show ?thesis by blast
        qed
      qed
    qed
  qed
qed

subsection \<open>The handlers of the registry\<close>

























lemma foldl_parser_insert:
  "foldl (\<lambda>m pair. snd (parser_insert m pair)) m xs k =
     (case m k of Some h \<Rightarrow> Some h | None \<Rightarrow> map_of xs k)"
proof (induction xs arbitrary: m)
  case Nil
  then show ?case by (simp split: option.splits)
next
  case (Cons x xs)
  then show ?case
    by (cases x) (auto simp: parser_insert_def split: option.splits)
qed

lemma JT808FrameParserInit_lookup:
  "snd (JT808FrameParserInit by_time speed_limit m) k =
     (case m k of Some h \<Rightarrow> Some h | None \<Rightarrow> map_of (builtin_handlers by_time speed_limit) k)"
  by (simp add: JT808FrameParserInit_def foldl_parser_insert)

lemma standard_parser_lookup: "standard_parser k = map_of (builtin_handlers 0 1) k"
  by (simp add: standard_parser_def JT808FrameParserInit_lookup)

lemma builtin_handlers_shape:
  "(k, handler) \<in> set (builtin_handlers by_time speed_limit) \<Longrightarrow> \<exists>body. handler = parse_handler body"
  by (auto simp: builtin_handlers_def)

lemma standard_parser_writes_parse_only:
  "\<forall>k handler. standard_parser k = Some handler \<longrightarrow> writes_parse_only handler"
  by (auto simp: standard_parser_lookup writes_parse_only_parse_handler
           dest!: map_of_SomeD builtin_handlers_shape)

lemmas msg_ids =
  kTerminalGeneralResponse_def kPlatformGeneralResponse_def kTerminalHeartBeat_def
  kFillPacketRequest_def kTerminalRegister_def kTerminalRegisterResponse_def
  kTerminalLogOut_def kTerminalAuthentication_def kSetTerminalParameters_def
  kGetTerminalParameters_def kGetSpecificTerminalParameters_def
  kGetTerminalParametersResponse_def kTerminalUpgrade_def kTerminalUpgradeResultReport_def
  kLocationReport_def kGetLocationInformation_def kGetLocationInformationResponse_def
  kLocationTrackingControl_def kSetPolygonArea_def kDeletePolygonArea_def
  kMultimediaDataUpload_def kMultimediaDataUploadResponse_def



subsection \<open>The example frames\<close>

lemma standard_parser_heartbeat:
  "standard_parser 0x0002 = Some (parse_handler TerminalHeartBeat_body)"
  by (simp add: standard_parser_lookup builtin_handlers_def msg_ids)

lemma standard_parser_0705: "standard_parser 0x0705 = None"
  by (simp add: standard_parser_lookup builtin_handlers_def msg_ids)

lemma bcd_char_digits:
  "bcd_char 0 = CHR ''0''" "bcd_char 1 = CHR ''1''" "bcd_char (Suc 0) = CHR ''1''"
  "bcd_char 2 = CHR ''2''"
  "bcd_char 3 = CHR ''3''" "bcd_char 4 = CHR ''4''" "bcd_char 5 = CHR ''5''"
  "bcd_char 6 = CHR ''6''" "bcd_char 7 = CHR ''7''" "bcd_char 8 = CHR ''8''"
  "bcd_char 9 = CHR ''9''"
  by code_simp+

lemmas head_eval =
  JT808FrameHeadParse_ok BcdToString_def bcd_decimal_def bcd_digits_def bcd_char_digits
  mul256_add_def packet_fields_present_def bit_packet_def bit_msglen_def

lemma heartbeat_frame_stages:
  "ReverseEscape heartbeat_frame = Some heartbeat_frame"
  "3 \<le> length heartbeat_frame"
  "checksum_matches heartbeat_frame"
  "JT808FrameHeadParse heartbeat_frame h0 =
     (0, \<lparr>msg_id = 0x0002, msgbody_attr = 0, phone_num = ''013523339527'',
          msg_flow_num = 1, total_packet = 0, packet_seq = 0\<rparr>)"
  by (simp_all add: heartbeat_frame_def checksum_matches_def BccCheckSum_def head_eval)

lemma unflagged_heartbeat_frame_stages:
  "ReverseEscape unflagged_heartbeat_frame = Some unflagged_heartbeat_frame"
  "3 \<le> length unflagged_heartbeat_frame"
  "checksum_matches unflagged_heartbeat_frame"
  "JT808FrameHeadParse unflagged_heartbeat_frame h0 =
     (0, \<lparr>msg_id = 0x0002, msgbody_attr = 0, phone_num = ''013523339527'',
          msg_flow_num = 1, total_packet = 0, packet_seq = 0\<rparr>)"
  by (simp_all add: unflagged_heartbeat_frame_def checksum_matches_def BccCheckSum_def head_eval)

lemma unregistered_frame_stages:
  "ReverseEscape unregistered_frame = Some unregistered_frame"
  "3 \<le> length unregistered_frame"
  "checksum_matches unregistered_frame"
  "JT808FrameHeadParse unregistered_frame h0 =
     (0, \<lparr>msg_id = 0x0705, msgbody_attr = 0, phone_num = ''013523339527'',
          msg_flow_num = 1, total_packet = 0, packet_seq = 0\<rparr>)"
  by (simp_all add: unregistered_frame_def checksum_matches_def BccCheckSum_def head_eval)

lemma parse_unflagged_heartbeat_frame:
  "JT808FrameParse standard_parser unflagged_heartbeat_frame (Some p) =
     Some (0, Some (dispatched_block p
        \<lparr>msg_id = 0x0002, msgbody_attr = 0, phone_num = ''013523339527'',
          msg_flow_num = 1, total_packet = 0, packet_seq = 0\<rparr>))"
proof -
  let ?h = "\<lparr>msg_id = 0x0002, msgbody_attr = 0, phone_num = ''013523339527'',
             msg_flow_num = 1, total_packet = 0, packet_seq = 0\<rparr>"
  have reg: "standard_parser (msg_id ?h) = Some (parse_handler TerminalHeartBeat_body)"
    by (simp add: standard_parser_heartbeat)
  show ?thesis
    unfolding JT808FrameParse_dispatch [where parser = standard_parser,
        OF unflagged_heartbeat_frame_stages(1-4) reg]
    by (simp add: parse_handler_def TerminalHeartBeat_body_def dispatched_block_def)
qed

lemma parse_unregistered_frame:
  "JT808FrameParse standard_parser unregistered_frame (Some p) =
     Some (-6, Some (dispatched_block p
        \<lparr>msg_id = 0x0705, msgbody_attr = 0, phone_num = ''013523339527'',
          msg_flow_num = 1, total_packet = 0, packet_seq = 0\<rparr>))"
  by (rule JT808FrameParse_unregistered [where parser = standard_parser,
        OF unregistered_frame_stages(1-4)])
     (simp add: standard_parser_0705)

subsection \<open>The flag bytes\<close>

text \<open>
  Claim C6, as amended. \<^verbatim>\<open>JT808FrameParse\<close> has no test of the flag bytes and no
  error for missing flags: a buffer whose first or last byte is not 0x7E, once it
  unescapes, has a matching checksum and a header that decodes, is handed to the handler
  registered for its message id, and the call returns what the handler returns.
\<close>

theorem JT808FrameParse_no_flag_check:
  assumes "inp \<noteq> []" and "hd inp \<noteq> 0x7E \<or> last inp \<noteq> 0x7E"
    and "ReverseEscape inp = Some out" and "3 \<le> length out" and "checksum_matches out"
    and "JT808FrameHeadParse out (msg_head (parse p)) = (0, h)"
    and "parser (msg_id h) = Some handler"
  shows "JT808FrameParse parser inp (Some p) = handler out (Some (dispatched_block p h))"
  using assms(3-7) by (rule JT808FrameParse_dispatch)

text \<open>The theorem at the heartbeat frame without flag bytes.\<close>

theorem JT808FrameParse_no_flag_check_witness:
  "JT808FrameParse standard_parser unflagged_heartbeat_frame (Some zero_para) =
     parse_handler TerminalHeartBeat_body unflagged_heartbeat_frame
       (Some (dispatched_block zero_para
          \<lparr>msg_id = 0x0002, msgbody_attr = 0, phone_num = ''013523339527'',
            msg_flow_num = 1, total_packet = 0, packet_seq = 0\<rparr>))"
proof -
  have 1: "unflagged_heartbeat_frame \<noteq> []" by (simp add: unflagged_heartbeat_frame_def)
  have 2: "hd unflagged_heartbeat_frame \<noteq> 0x7E \<or> last unflagged_heartbeat_frame \<noteq> 0x7E"
    by (simp add: unflagged_heartbeat_frame_def)
  show ?thesis
    by (rule JT808FrameParse_no_flag_check [where parser = standard_parser,
          OF 1 2 unflagged_heartbeat_frame_stages(1-4)])
       (simp add: standard_parser_heartbeat)
qed

text \<open>
  Claim C6 as stated fails: the heartbeat frame whose first and last byte are 0x00 is
  not rejected; the heartbeat handler is dispatched and the call returns 0.
\<close>

theorem JT808FrameParse_accepts_unflagged_counterexample:
  "hd unflagged_heartbeat_frame \<noteq> 0x7E \<and> last unflagged_heartbeat_frame \<noteq> 0x7E \<and>
   standard_parser 0x0002 = Some (parse_handler TerminalHeartBeat_body) \<and>
   JT808FrameParse standard_parser unflagged_heartbeat_frame (Some zero_para) =
     Some (0, Some (dispatched_block zero_para
        \<lparr>msg_id = 0x0002, msgbody_attr = 0, phone_num = ''013523339527'',
          msg_flow_num = 1, total_packet = 0, packet_seq = 0\<rparr>))"
  by (simp add: parse_unflagged_heartbeat_frame standard_parser_heartbeat)
     (simp add: unflagged_heartbeat_frame_def)

subsection \<open>Reading the buffer\<close>

lemma byte_digits:
  fixes a b c d :: nat
  assumes "a < 256" "b < 256" "c < 256"
  defines "x \<equiv> a + 256 * b + 65536 * c + 16777216 * d"
  shows "x mod 256 = a" "x div 256 mod 256 = b" "x div 65536 mod 256 = c" "x div 16777216 = d"
proof -
  define z where "z = c + 256 * d"
  define y where "y = b + 256 * z"
  have x: "x = a + 256 * y" by (simp add: x_def y_def z_def)
  from assms(1) show 1: "x mod 256 = a" by (simp add: x)
  from assms(1) have q1: "x div 256 = y" by (simp add: x)
  from assms(2) show "x div 256 mod 256 = b" by (simp add: q1 y_def)
  from assms(2) have q2: "y div 256 = z" by (simp add: y_def)
  have e2: "x div 65536 = x div 256 div 256" by (simp add: div_mult2_eq [symmetric])
  from assms(3) show "x div 65536 mod 256 = c" by (simp add: e2 q1 q2 z_def)
  from assms(3) have q3: "z div 256 = d" by (simp add: z_def)
  have e3: "x div 16777216 = x div 256 div 256 div 256" by (simp add: div_mult2_eq [symmetric])
  show "x div 16777216 = d" by (simp add: e3 q1 q2 q3)
qed

lemma EndianSwap16_u16val: "EndianSwap16 (u16val b0 b1) = mul256_add b0 b1"
proof -
  have b: "unat b0 < 256" "unat b1 < 256" by (rule unat_byte_less)+
  then have "unat b0 + 256 * unat b1 < 2 ^ LENGTH(16)" by simp
  then have u: "unat (u16val b0 b1) = unat b0 + 256 * unat b1"
    unfolding u16val_def unat_of_nat by (rule mod_less)
  from b have "(unat b0 + 256 * unat b1) mod 256 = unat b0"
    "(unat b0 + 256 * unat b1) div 256 = unat b1" by simp_all
  with u show ?thesis by (simp only: EndianSwap16_def mul256_add_def)
qed

lemma EndianSwap32_u32val: "EndianSwap32 (u32val b0 b1 b2 b3) = be32 b0 b1 b2 b3"
proof -
  define x where "x = unat b0 + 256 * unat b1 + 65536 * unat b2 + 16777216 * unat b3"
  have b: "unat b0 < 256" "unat b1 < 256" "unat b2 < 256" "unat b3 < 256"
    by (rule unat_byte_less)+
  then have "x < 2 ^ LENGTH(32)" by (simp add: x_def)
  then have u: "unat (u32val b0 b1 b2 b3) = x"
    unfolding u32val_def unat_of_nat x_def [symmetric] by (rule mod_less)
  note d = byte_digits [OF b(1-3), of "unat b3", folded x_def]
  show ?thesis by (simp only: EndianSwap32_def be32_def u d)
qed

lemma byte_at_append: "byte_at (pre @ b # rest) (length pre) = Some b"
  by (simp add: byte_at_def)

lemma byte_at_append_plus:
  "i < length xs \<Longrightarrow> byte_at (pre @ xs @ rest) (length pre + i) = Some (xs ! i)"
  by (simp add: byte_at_def nth_append)


lemma swapped16_at_append:
  "swapped16_at (pre @ b0 # b1 # rest) (length pre) = Some (mul256_add b0 b1)"
  using byte_at_append_plus [of 1 "[b0, b1]" pre rest]
  by (simp add: swapped16_at_def byte_at_append EndianSwap16_u16val)


lemma standard_parser_lookups:
  "standard_parser 0x8003 = Some (parse_handler FillPacketRequest_body)"
  "standard_parser 0x8103 = Some (parse_handler SetTerminalParameters_body)"
  "standard_parser 0x0201 = Some (parse_handler GetLocationInformationResponse_body)"
  "standard_parser 0x8604 = Some (parse_handler (SetPolygonArea_body 0 1))"
  "standard_parser 0x8100 = Some (parse_handler TerminalRegisterResponse_body)"
  by (simp_all add: standard_parser_lookup builtin_handlers_def msg_ids)

lemma parse_dispatched_block [simp]: "parse (dispatched_block p h) = (parse p)\<lparr>msg_head := h\<rparr>"
  by (simp add: dispatched_block_def)

lemma parse_handler_Some:
  "body inp (parse p) = Some (rc, v) \<Longrightarrow>
   parse_handler body inp (Some p) = Some (rc, Some (p\<lparr>parse := v\<rparr>))"
  by (simp add: parse_handler_def)

lemma fill_packet_frame_stages:
  "ReverseEscape fill_packet_frame = Some fill_packet_frame"
  "3 \<le> length fill_packet_frame"
  "checksum_matches fill_packet_frame"
  "JT808FrameHeadParse fill_packet_frame h0 = (0, head_of 0x8003 5)"
  by (simp_all add: fill_packet_frame_def checksum_matches_def BccCheckSum_def head_eval head_of_def)

lemma fill_packet_frame_body:
  "FillPacketRequest_body fill_packet_frame (zero_view\<lparr>msg_head := head_of 0x8003 5\<rparr>) =
     Some (0, zero_view\<lparr>msg_head := head_of 0x8003 5,
                         fill_packet := \<lparr>first_packet_msg_flow_num = 5, packet_id = [3]\<rparr>\<rparr>)"
  by (simp add: FillPacketRequest_body_def fill_packet_frame_def byte_at_def head_of_def
        body_pos_def msg_len_def bit_packet_def bit_msglen_def MSGBODY_NOPACKET_POS_def
        mul256_add_def fill_packet_ids.simps zero_view_def)

lemmas body_eval =
  byte_at_def bytes_between_def swapped16_at_def swapped32_at_def EndianSwap16_u16val
  EndianSwap32_u32val be32_def mul256_add_def body_pos_def msg_len_def bit_packet_def
  bit_msglen_def MSGBODY_NOPACKET_POS_def MSGBODY_PACKET_POS_def head_of_def

subsection \<open>Set terminal parameters (0x8103)\<close>

lemma length_item_bytes: "length (item_bytes it) = 5 + length (snd (snd (snd (snd it))))"
  by (cases it) (simp add: item_bytes_def)






subsection \<open>Terminal register response (0x8100)\<close>






subsection \<open>Fill packet request (0x8003)\<close>

text \<open>
  Whenever the handler succeeds it has stored as many ids as the count byte says, and
  each id is the sum of its two bytes.
\<close>

lemma fill_packet_ids_sums:
  "fill_packet_ids inp pos cnt i ids = Some ids' \<Longrightarrow>
   ids' = ids @ map (\<lambda>k. word_of_nat (unat (inp ! (pos + k * 2)) + unat (inp ! (pos + 1 + k * 2))))
                  [i..<unat cnt]"
proof (induction inp pos cnt i ids rule: fill_packet_ids.induct)
  case (1 inp pos cnt i ids)
  show ?case
  proof (cases "i < unat cnt")
    case False
    with "1.prems" show ?thesis by (simp add: fill_packet_ids.simps)
  next
    case True
    with "1.prems" obtain a b where a: "byte_at inp (pos + i * 2) = Some a"
      and b: "byte_at inp (pos + 1 + i * 2) = Some b"
      and rest: "fill_packet_ids inp pos cnt (i + 1) (ids @ [word_of_nat (unat a + unat b)]) = Some ids'"
      by (subst (asm) fill_packet_ids.simps) (auto simp: bind_eq_Some_conv)
    from a have a': "a = inp ! (pos + i * 2)" by (simp add: byte_at_def split: if_splits)
    from b have b': "b = inp ! (pos + 1 + i * 2)" by (simp add: byte_at_def split: if_splits)
    from "1.IH" [OF True a b rest] True show ?thesis
      by (simp add: a' b' upt_conv_Cons)
  qed
qed

lemma FillPacketRequest_body_stores_sums:
  assumes "FillPacketRequest_body inp v = Some (0, v')"
  shows "\<exists>c. byte_at inp (body_pos v + 2) = Some c \<and>
           packet_id (fill_packet v') =
             map (\<lambda>k. word_of_nat (unat (inp ! (body_pos v + 3 + k * 2)) +
                                      unat (inp ! (body_pos v + 3 + 1 + k * 2))))
                 [0..<unat c]"
  using assms
  by (auto simp: FillPacketRequest_body_def Let_def bind_eq_Some_conv split: if_splits
           dest!: fill_packet_ids_sums)

text \<open>
  Claim C2 fails on the code: on the well-formed request for the packet id \<open>01 02\<close>
  the parser returns 0 and stores one id, as the claim says, but the id is the sum 3 of
  the two bytes, not their big-endian value 258.
\<close>

theorem FillPacketRequest_adds_id_bytes:
  "\<exists>p'. JT808FrameParse standard_parser fill_packet_frame (Some zero_para) = Some (0, Some p') \<and>
        fill_packet (parse p') = \<lparr>first_packet_msg_flow_num = 5, packet_id = [3]\<rparr> \<and>
        take 2 (drop 16 fill_packet_frame) = [0x01, 0x02] \<and>
        mul256_add 0x01 0x02 = 258"
proof -
  have reg: "standard_parser (msg_id (head_of 0x8003 5)) = Some (parse_handler FillPacketRequest_body)"
    by (simp add: head_of_def standard_parser_lookups)
  have "JT808FrameParse standard_parser fill_packet_frame (Some zero_para) =
          Some (0, Some ((dispatched_block zero_para (head_of 0x8003 5))
             \<lparr>parse := zero_view\<lparr>msg_head := head_of 0x8003 5,
                         fill_packet := \<lparr>first_packet_msg_flow_num = 5, packet_id = [3]\<rparr>\<rparr>\<rparr>))"
    unfolding JT808FrameParse_dispatch [where parser = standard_parser,
        OF fill_packet_frame_stages(1-4) reg]
    by (rule parse_handler_Some) (simp add: zero_para_def fill_packet_frame_body)
  then show ?thesis by (simp add: fill_packet_frame_def mul256_add_def)
qed

subsection \<open>Location query response (0x0201)\<close>

text \<open>
  Whenever the handler returns on a body of at least 30 bytes, the flow number it has
  stored is built from the first body byte alone.
\<close>

lemma GetLocationInformationResponse_body_flow_num:
  assumes "GetLocationInformationResponse_body inp v = Some (rc, v')" and "30 \<le> msg_len v"
  shows "\<exists>b. byte_at inp (body_pos v) = Some b \<and> respone_flow_num v' = mul256_add b b"
  using assms
  by (auto simp: GetLocationInformationResponse_body_def Let_def bind_eq_Some_conv
           split: if_splits)

lemma location_response_frame_stages:
  "ReverseEscape location_response_frame = Some location_response_frame"
  "3 \<le> length location_response_frame"
  "checksum_matches location_response_frame"
  "JT808FrameHeadParse location_response_frame h0 = (0, head_of 0x0201 0x1E)"
  by (simp_all add: location_response_frame_def checksum_matches_def BccCheckSum_def head_eval head_of_def)

lemma location_response_frame_body:
  "\<exists>v'. GetLocationInformationResponse_body location_response_frame
           (zero_view\<lparr>msg_head := head_of 0x0201 0x1E\<rparr>) = Some (-1, v') \<and>
        respone_flow_num v' = 257"
  by (simp add: GetLocationInformationResponse_body_def location_basic_at_def
        location_response_frame_def body_eval location_extension_items.simps)

text \<open>
  Claim C3 fails on the code: on the well-formed response whose body starts \<open>01 02\<close>
  the handler stores the flow number 257, the first byte taken twice, not the
  big-endian value 258. (On this frame the call also returns -1: the loop over the
  additional items runs past the 30-byte body into the checksum and the flag byte.)
\<close>

theorem GetLocationInformationResponse_repeats_first_byte:
  "\<exists>p'. JT808FrameParse standard_parser location_response_frame (Some zero_para) =
          Some (-1, Some p') \<and>
        respone_flow_num (parse p') = 257 \<and>
        take 2 (drop 13 location_response_frame) = [0x01, 0x02] \<and>
        mul256_add 0x01 0x01 = 257 \<and> mul256_add 0x01 0x02 = 258"
proof -
  have reg: "standard_parser (msg_id (head_of 0x0201 0x1E)) =
               Some (parse_handler GetLocationInformationResponse_body)"
    by (simp add: head_of_def standard_parser_lookups)
  from location_response_frame_body obtain v'
    where v': "GetLocationInformationResponse_body location_response_frame
                 (zero_view\<lparr>msg_head := head_of 0x0201 0x1E\<rparr>) = Some (-1, v')"
      and f: "respone_flow_num v' = 257" by blast
  have "JT808FrameParse standard_parser location_response_frame (Some zero_para) =
          Some (-1, Some ((dispatched_block zero_para (head_of 0x0201 0x1E))\<lparr>parse := v'\<rparr>))"
    unfolding JT808FrameParse_dispatch [where parser = standard_parser,
        OF location_response_frame_stages(1-4) reg]
    by (rule parse_handler_Some) (insert v', simp add: zero_para_def)
  with f show ?thesis by (simp add: location_response_frame_def mul256_add_def)
qed

subsection \<open>Set polygon area (0x8604)\<close>

text \<open>
  Whenever the handler returns on a body of at least 28 bytes whose attribute word has
  the \<^verbatim>\<open>by_time\<close> bit, wherever that bit lies, both times are empty.
\<close>

lemma polygon_times_result:
  assumes "polygon_times by_time inp area pos = Some (area1, pos1)"
  shows "area_attribute area1 = area_attribute area"
    and "bit (area_attribute area) by_time \<Longrightarrow> start_time area1 = [] \<and> stop_time area1 = []"
  using assms
  by (auto simp: polygon_times_def bind_eq_Some_conv bytes_between_def BcdToStringFillZero_def
           Let_def split: if_splits)

lemma polygon_speed_result:
  assumes "polygon_speed speed_limit inp area pos = Some (area2, pos2)"
  shows "area_attribute area2 = area_attribute area" "start_time area2 = start_time area"
    "stop_time area2 = stop_time area"
  using assms by (auto simp: polygon_speed_def bind_eq_Some_conv split: if_splits)

lemma SetPolygonArea_body_steps:
  assumes run: "SetPolygonArea_body by_time speed_limit inp v = Some (rc, v')"
    and len: "28 \<le> msg_len v"
  shows "\<exists>ident attr area1 pos1 area2 pos2.
           polygon_times by_time inp ((polygon_area v)\<lparr>area_id := ident, area_attribute := attr\<rparr>)
             (body_pos v + 6) = Some (area1, pos1) \<and>
           polygon_speed speed_limit inp area1 pos1 = Some (area2, pos2) \<and>
           (polygon_area v' = area2 \<or> (\<exists>vs. polygon_area v' = area2\<lparr>vertices := vs\<rparr>))"
proof -
  from len have n: "\<not> msg_len v < 28" by simp
  from run obtain ident attr t s cnt where
    t: "polygon_times by_time inp ((polygon_area v)\<lparr>area_id := ident, area_attribute := attr\<rparr>)
             (body_pos v + 6) = Some t"
    and s: "polygon_speed speed_limit inp (fst t) (snd t) = Some s"
    and f: "(if int (body_pos v + msg_len v) - int (snd s + 2) \<noteq> int (unat (cnt :: 16 word)) * 8
             then Some (-1, v\<lparr>polygon_area := fst s\<rparr>)
             else polygon_vertices inp (body_pos v + msg_len v) (snd s + 2) [] \<bind>
                  (\<lambda>vs. Some (0, v\<lparr>polygon_area := (fst s)\<lparr>vertices := vs\<rparr>\<rparr>))) = Some (rc, v')"
    unfolding SetPolygonArea_body_def Let_def if_not_P [OF n] bind_eq_Some_conv split_def
    by (elim exE conjE) (rule that, assumption+)
  from f have r: "polygon_area v' = fst s \<or> (\<exists>vs. polygon_area v' = (fst s)\<lparr>vertices := vs\<rparr>)"
    by (auto simp: bind_eq_Some_conv split: if_splits)
  obtain area1 pos1 area2 pos2 where "t = (area1, pos1)" "s = (area2, pos2)"
    by (cases t; cases s) auto
  with t s r show ?thesis by (intro exI [of _ ident] exI [of _ attr] exI [of _ area1]
    exI [of _ pos1] exI [of _ area2] exI [of _ pos2]) simp
qed

lemma SetPolygonArea_body_times_empty:
  assumes run: "SetPolygonArea_body by_time speed_limit inp v = Some (rc, v')"
    and len: "28 \<le> msg_len v"
    and flag: "bit (area_attribute (polygon_area v')) by_time"
  shows "start_time (polygon_area v') = [] \<and> stop_time (polygon_area v') = []"
proof -
  from SetPolygonArea_body_steps [OF run len] obtain ident attr area1 pos1 area2 pos2 where
    t: "polygon_times by_time inp ((polygon_area v)\<lparr>area_id := ident, area_attribute := attr\<rparr>)
          (body_pos v + 6) = Some (area1, pos1)"
    and s: "polygon_speed speed_limit inp area1 pos1 = Some (area2, pos2)"
    and r: "polygon_area v' = area2 \<or> (\<exists>vs. polygon_area v' = area2\<lparr>vertices := vs\<rparr>)"
    by blast
  from r have same: "area_attribute (polygon_area v') = area_attribute area2"
    "start_time (polygon_area v') = start_time area2"
    "stop_time (polygon_area v') = stop_time area2" by auto
  from polygon_times_result(1) [OF t] polygon_speed_result(1) [OF s] same(1) flag
  have "bit (area_attribute ((polygon_area v)\<lparr>area_id := ident, area_attribute := attr\<rparr>)) by_time"
    by simp
  from polygon_times_result(2) [OF t this] polygon_speed_result(2,3) [OF s] same(2,3)
  show ?thesis by simp
qed

lemma polygon_frame_stages:
  "ReverseEscape polygon_frame = Some polygon_frame"
  "3 \<le> length polygon_frame"
  "checksum_matches polygon_frame"
  "JT808FrameHeadParse polygon_frame h0 = (0, head_of 0x8604 0x1C)"
  by (simp_all add: polygon_frame_def checksum_matches_def BccCheckSum_def head_eval head_of_def)

lemma polygon_frame_body:
  "\<exists>v'. SetPolygonArea_body 0 1 polygon_frame (zero_view\<lparr>msg_head := head_of 0x8604 0x1C\<rparr>) =
          Some (0, v') \<and>
        area_attribute (polygon_area v') = 1 \<and>
        start_time (polygon_area v') = [] \<and> stop_time (polygon_area v') = [] \<and>
        length (vertices (polygon_area v')) = 1"
  by (simp add: SetPolygonArea_body_def polygon_times_def polygon_speed_def polygon_frame_def
        body_eval polygon_vertices.simps BcdToStringFillZero_def Let_def)

text \<open>
  Claim C4 fails on the code: on the well-formed polygon frame with the \<^verbatim>\<open>by_time\<close>
  bit set the parser returns 0 and leaves \<open>start_time\<close> and \<open>stop_time\<close> empty,
  while the two 6-byte BCD fields encode 200718120000 and 200719120000.
\<close>

theorem SetPolygonArea_times_left_empty:
  "\<exists>p'. JT808FrameParse standard_parser polygon_frame (Some zero_para) = Some (0, Some p') \<and>
        bit (area_attribute (polygon_area (parse p'))) (0::nat) \<and>
        start_time (polygon_area (parse p')) = [] \<and>
        stop_time (polygon_area (parse p')) = [] \<and>
        BcdToStringFillZero (take 6 (drop 19 polygon_frame)) = ''200718120000'' \<and>
        BcdToStringFillZero (take 6 (drop 25 polygon_frame)) = ''200719120000''"
proof -
  have reg: "standard_parser (msg_id (head_of 0x8604 0x1C)) =
               Some (parse_handler (SetPolygonArea_body 0 1))"
    by (simp add: head_of_def standard_parser_lookups)
  from polygon_frame_body obtain v'
    where v': "SetPolygonArea_body 0 1 polygon_frame (zero_view\<lparr>msg_head := head_of 0x8604 0x1C\<rparr>) =
                 Some (0, v')"
      and f: "area_attribute (polygon_area v') = 1"
        "start_time (polygon_area v') = []" "stop_time (polygon_area v') = []" by blast
  have "JT808FrameParse standard_parser polygon_frame (Some zero_para) =
          Some (0, Some ((dispatched_block zero_para (head_of 0x8604 0x1C))\<lparr>parse := v'\<rparr>))"
    unfolding JT808FrameParse_dispatch [where parser = standard_parser,
        OF polygon_frame_stages(1-4) reg]
    by (rule parse_handler_Some) (insert v', simp add: zero_para_def)
  with f show ?thesis
    by (simp add: polygon_frame_def BcdToStringFillZero_def bcd_digits_def bcd_char_digits)
qed

subsection \<open>Return codes and the send view\<close>

lemma bad_escape_frame_stages:
  "ReverseEscape bad_escape_frame = None"
  by (simp add: bad_escape_frame_def)

lemma bad_checksum_frame_stages:
  "ReverseEscape bad_checksum_frame = Some bad_checksum_frame"
  "3 \<le> length bad_checksum_frame"
  "\<not> checksum_matches bad_checksum_frame"
  by (simp_all add: bad_checksum_frame_def checksum_matches_def BccCheckSum_def)

lemma truncated_frame_stages:
  "ReverseEscape truncated_frame = Some truncated_frame"
  "3 \<le> length truncated_frame"
  "checksum_matches truncated_frame"
  "JT808FrameHeadParse truncated_frame h0 = (-1, h0)"
  by (simp_all add: truncated_frame_def checksum_matches_def BccCheckSum_def
        JT808FrameHeadParse_def)


lemma send_dispatched_block:
  "send (dispatched_block p h) =
     (send p)\<lparr>msg_head := (msg_head (send p))\<lparr>phone_num := phone_num h\<rparr>\<rparr>"
  by (simp add: dispatched_block_def)

lemma JT808FrameHeadParse_phone_num:
  "JT808FrameHeadParse out h0 = (0, h) \<Longrightarrow> BcdToString (take 6 (drop 5 out)) = Some (phone_num h)"
  by (auto simp: JT808FrameHeadParse_def Let_def split: if_splits option.splits)

lemma heartbeat_handler_call:
  "parse_handler TerminalHeartBeat_body inp (Some p) = Some (0, Some p)"
  by (simp add: parse_handler_def TerminalHeartBeat_body_def)

lemma location_response_handler_call:
  assumes "parse p = zero_view\<lparr>msg_head := head_of 0x0201 0x1E\<rparr>"
  shows "\<exists>v'. parse_handler GetLocationInformationResponse_body location_response_frame (Some p) =
           Some (-1, Some (p\<lparr>parse := v'\<rparr>))"
proof -
  from location_response_frame_body obtain v'
    where "GetLocationInformationResponse_body location_response_frame (parse p) = Some (-1, v')"
    unfolding assms by blast
  then have "parse_handler GetLocationInformationResponse_body location_response_frame (Some p) =
           Some (-1, Some (p\<lparr>parse := v'\<rparr>))" by (rule parse_handler_Some)
  then show ?thesis ..
qed




lemma parse_bad_escape_frame:
  "JT808FrameParse parser bad_escape_frame (Some p) = Some (-3, Some p)"
  by (rule JT808FrameParse_unescape [OF bad_escape_frame_stages])

lemma parse_bad_checksum_frame:
  "JT808FrameParse parser bad_checksum_frame (Some p) = Some (-4, Some p)"
  by (rule JT808FrameParse_checksum [OF bad_checksum_frame_stages])

lemma parse_truncated_frame:
  "JT808FrameParse parser truncated_frame (Some p) = Some (-5, Some p)"
  using JT808FrameParse_header [where parser = parser and p = p, OF truncated_frame_stages]
  by simp

lemma parse_location_response_frame:
  assumes "parse p = zero_view"
  shows "\<exists>v'. JT808FrameParse standard_parser location_response_frame (Some p) =
           Some (-1, Some ((dispatched_block p (head_of 0x0201 0x1E))\<lparr>parse := v'\<rparr>))"
proof -
  have reg: "standard_parser (msg_id (head_of 0x0201 0x1E)) =
               Some (parse_handler GetLocationInformationResponse_body)"
    by (simp add: head_of_def standard_parser_lookups)
  show ?thesis
    unfolding JT808FrameParse_dispatch [where parser = standard_parser,
        OF location_response_frame_stages(1-4) reg]
    by (rule location_response_handler_call) (simp add: assms)
qed

text \<open>
  Claim C10. When unescaping, the checksum test and header decoding have passed, the
  block that \<^verbatim>\<open>JT808FrameParse\<close> goes on with holds in
  \<^verbatim>\<open>para->msg_head.phone_num\<close> the phone number decoded from bytes 5-10 of the
  unescaped frame. Without a handler for the decoded id the call returns
  \<open>UnregisteredMessageParser (-6)\<close> with that block; with a handler it returns what
  the handler returns on that block, and a handler that writes only the parse view
  leaves the number there, whatever its return code.
\<close>

theorem JT808FrameParse_overwrites_phone_num:
  assumes esc: "ReverseEscape inp = Some out" and len: "3 \<le> length out"
    and sum: "checksum_matches out"
    and head: "JT808FrameHeadParse out (msg_head (parse p)) = (0, h)"
  shows "BcdToString (take 6 (drop 5 out)) = Some (phone_num h) \<and>
         phone_num (msg_head (send (dispatched_block p h))) = phone_num h \<and>
         (parser (msg_id h) = None \<longrightarrow>
            JT808FrameParse parser inp (Some p) = Some (-6, Some (dispatched_block p h))) \<and>
         (\<forall>handler. parser (msg_id h) = Some handler \<longrightarrow>
            JT808FrameParse parser inp (Some p) = handler out (Some (dispatched_block p h)) \<and>
            (writes_parse_only handler \<longrightarrow>
               (\<forall>rc q. handler out (Some (dispatched_block p h)) = Some (rc, q) \<longrightarrow>
                  (\<exists>p'. q = Some p' \<and> phone_num (msg_head (send p')) = phone_num h))))"
proof (intro conjI allI impI)
  show "BcdToString (take 6 (drop 5 out)) = Some (phone_num h)"
    using head by (rule JT808FrameHeadParse_phone_num)
  show "phone_num (msg_head (send (dispatched_block p h))) = phone_num h"
    by (simp add: send_dispatched_block)
next
  assume "parser (msg_id h) = None"
  with esc len sum head
  show "JT808FrameParse parser inp (Some p) = Some (-6, Some (dispatched_block p h))"
    by (rule JT808FrameParse_unregistered)
next
  fix handler assume "parser (msg_id h) = Some handler"
  with esc len sum head
  show "JT808FrameParse parser inp (Some p) = handler out (Some (dispatched_block p h))"
    by (rule JT808FrameParse_dispatch)
next
  fix handler rc q
  assume "writes_parse_only handler"
    and "handler out (Some (dispatched_block p h)) = Some (rc, q)"
  then obtain p' where "q = Some p'" "send p' = send (dispatched_block p h)"
    unfolding writes_parse_only_def by blast
  then show "\<exists>p'. q = Some p' \<and> phone_num (msg_head (send p')) = phone_num h"
    by (simp add: send_dispatched_block)
qed

text \<open>
  The theorem at the standard registry and a block that holds the number 013800000000:
  after the heartbeat frame (code 0), after the location query response, whose handler
  fails (code -1), and after the frame with the unregistered id 0x0705 (code -6) the
  send view holds the number 013523339527 of the frame.
\<close>

theorem JT808FrameParse_overwrites_phone_num_witness:
  "phone_num (msg_head (send other_phone_para)) = ''013800000000'' \<and>
   (\<exists>p'. JT808FrameParse standard_parser heartbeat_frame (Some other_phone_para) =
            Some (0, Some p') \<and>
          phone_num (msg_head (send p')) = ''013523339527'') \<and>
   (\<exists>p'. JT808FrameParse standard_parser location_response_frame (Some other_phone_para) =
            Some (-1, Some p') \<and>
          phone_num (msg_head (send p')) = ''013523339527'') \<and>
   (\<exists>p'. JT808FrameParse standard_parser unregistered_frame (Some other_phone_para) =
            Some (-6, Some p') \<and>
          phone_num (msg_head (send p')) = ''013523339527'')"
proof -
  note t = JT808FrameParse_overwrites_phone_num [where parser = standard_parser
      and p = other_phone_para]
  let ?hb = "dispatched_block other_phone_para (head_of 0x0002 0)"
  let ?lr = "dispatched_block other_phone_para (head_of 0x0201 0x1E)"
  let ?ur = "dispatched_block other_phone_para (head_of 0x0705 0)"
  have 0: "phone_num (msg_head (send other_phone_para)) = ''013800000000''"
    by (simp add: other_phone_para_def)
  have 1: "\<exists>p'. JT808FrameParse standard_parser heartbeat_frame (Some other_phone_para) =
            Some (0, Some p') \<and> phone_num (msg_head (send p')) = ''013523339527''"
  proof -
    have h: "JT808FrameHeadParse heartbeat_frame (msg_head (parse other_phone_para)) =
               (0, head_of 0x0002 0)"
      by (simp add: heartbeat_frame_stages(4) head_of_def)
    have reg: "standard_parser (msg_id (head_of 0x0002 0)) =
                 Some (parse_handler TerminalHeartBeat_body)"
      by (simp add: head_of_def standard_parser_heartbeat)
    note th = t [OF heartbeat_frame_stages(1-3) h]
    note d = th [THEN conjunct2, THEN conjunct2, THEN conjunct2, rule_format, OF reg]
    have call: "parse_handler TerminalHeartBeat_body heartbeat_frame (Some ?hb) = Some (0, Some ?hb)"
      by (rule heartbeat_handler_call)
    from d [THEN conjunct1] call
    have r: "JT808FrameParse standard_parser heartbeat_frame (Some other_phone_para) =
               Some (0, Some ?hb)" by simp
    from d [THEN conjunct2, rule_format, OF writes_parse_only_parse_handler call]
    have "phone_num (msg_head (send ?hb)) = ''013523339527''" by (simp add: head_of_def)
    with r show ?thesis by blast
  qed
  have 2: "\<exists>p'. JT808FrameParse standard_parser location_response_frame (Some other_phone_para) =
            Some (-1, Some p') \<and> phone_num (msg_head (send p')) = ''013523339527''"
  proof -
    have reg: "standard_parser (msg_id (head_of 0x0201 0x1E)) =
                 Some (parse_handler GetLocationInformationResponse_body)"
      by (simp add: head_of_def standard_parser_lookups)
    note th = t [OF location_response_frame_stages(1-4)]
    note d = th [THEN conjunct2, THEN conjunct2, THEN conjunct2, rule_format, OF reg]
    have "parse ?lr = zero_view\<lparr>msg_head := head_of 0x0201 0x1E\<rparr>"
      by (simp add: other_phone_para_def)
    from location_response_handler_call [OF this] obtain v'
      where call: "parse_handler GetLocationInformationResponse_body location_response_frame
                     (Some ?lr) = Some (-1, Some (?lr\<lparr>parse := v'\<rparr>))" ..
    from d [THEN conjunct1] call
    have r: "JT808FrameParse standard_parser location_response_frame (Some other_phone_para) =
               Some (-1, Some (?lr\<lparr>parse := v'\<rparr>))" by simp
    from d [THEN conjunct2, rule_format, OF writes_parse_only_parse_handler call]
    have "phone_num (msg_head (send (?lr\<lparr>parse := v'\<rparr>))) = ''013523339527''"
      by (simp add: head_of_def)
    with r show ?thesis by blast
  qed
  have 3: "\<exists>p'. JT808FrameParse standard_parser unregistered_frame (Some other_phone_para) =
            Some (-6, Some p') \<and> phone_num (msg_head (send p')) = ''013523339527''"
  proof -
    have h: "JT808FrameHeadParse unregistered_frame (msg_head (parse other_phone_para)) =
               (0, head_of 0x0705 0)"
      by (simp add: unregistered_frame_stages(4) head_of_def)
    have reg: "standard_parser (msg_id (head_of 0x0705 0)) = None"
      by (simp add: head_of_def standard_parser_0705)
    note th = t [OF unregistered_frame_stages(1-3) h]
    from th [THEN conjunct2, THEN conjunct2, THEN conjunct1, rule_format, OF reg]
    have r: "JT808FrameParse standard_parser unregistered_frame (Some other_phone_para) =
               Some (-6, Some ?ur)" .
    from th [THEN conjunct2, THEN conjunct1]
    have "phone_num (msg_head (send ?ur)) = ''013523339527''" by (simp add: head_of_def)
    with r show ?thesis by blast
  qed
  from 0 1 2 3 show ?thesis by (intro conjI)
qed

text \<open>
  Claim C1, as amended. When every registered handler writes only the parse view, a call
  that returns a failure leaves every member outside \<^verbatim>\<open>parse\<close> as it was, except
  \<^verbatim>\<open>msg_head.phone_num\<close>. When the failure is an unescape failure, a checksum
  mismatch or a header parse error, it leaves \<^verbatim>\<open>msg_head.phone_num\<close> as it was
  too; when the header has been decoded, so that the failure is an unregistered id or
  the handler's own, \<^verbatim>\<open>msg_head.phone_num\<close> holds the phone number decoded from
  bytes 5-10 of the unescaped frame.
\<close>

theorem JT808FrameParse_failure_leaves_send_view:
  assumes handlers: "\<forall>k handler. parser k = Some handler \<longrightarrow> writes_parse_only handler"
    and res: "JT808FrameParse parser inp (Some p) = Some (rc, q)"
    and fail: "rc \<noteq> 0"
  shows "\<exists>p'. q = Some p' \<and>
           send p' = (send p)\<lparr>msg_head :=
                       (msg_head (send p))\<lparr>phone_num := phone_num (msg_head (send p'))\<rparr>\<rparr> \<and>
           (ReverseEscape inp = None \<or>
            (\<exists>out. ReverseEscape inp = Some out \<and>
               (\<not> checksum_matches out \<or>
                fst (JT808FrameHeadParse out (msg_head (parse p))) \<noteq> 0))
            \<longrightarrow> send p' = send p) \<and>
           (\<forall>out h. ReverseEscape inp = Some out \<and> checksum_matches out \<and>
                    JT808FrameHeadParse out (msg_head (parse p)) = (0, h) \<longrightarrow>
              phone_num (msg_head (send p')) = phone_num h \<and>
              BcdToString (take 6 (drop 5 out)) = Some (phone_num h))"
  using res
proof (cases rule: JT808FrameParse_cases)
  case unescape
  then show ?thesis by simp
next
  case (checksum out)
  then show ?thesis by simp
next
  case (header out rc' h)
  then show ?thesis by simp
next
  case (unregistered out h)
  from unregistered(4) have "BcdToString (take 6 (drop 5 out)) = Some (phone_num h)"
    by (rule JT808FrameHeadParse_phone_num)
  with unregistered show ?thesis by (simp add: send_dispatched_block)
next
  case (dispatched out h handler)
  from dispatched(4) have bcd: "BcdToString (take 6 (drop 5 out)) = Some (phone_num h)"
    by (rule JT808FrameHeadParse_phone_num)
  from handlers dispatched(5) have "writes_parse_only handler" by blast
  with dispatched(6) obtain p' where "q = Some p'" "send p' = send (dispatched_block p h)"
    unfolding writes_parse_only_def by blast
  with dispatched bcd show ?thesis by (simp add: send_dispatched_block)
qed

text \<open>
  The theorem at the standard registry and a block that holds the number 013800000000,
  once for every failure: a bad escape (-3), a wrong checksum (-4) and a frame too short
  for a header (-5) leave the send view as it was; the unregistered id 0x0705 (-6) and
  the failing handler of the location query response (-1) leave it with the number
  013523339527 of the frame and nothing else changed.
\<close>

theorem JT808FrameParse_failure_leaves_send_view_witness:
  "(\<exists>p'. JT808FrameParse standard_parser bad_escape_frame (Some other_phone_para) =
            Some (-3, Some p') \<and> send p' = send other_phone_para) \<and>
   (\<exists>p'. JT808FrameParse standard_parser bad_checksum_frame (Some other_phone_para) =
            Some (-4, Some p') \<and> send p' = send other_phone_para) \<and>
   (\<exists>p'. JT808FrameParse standard_parser truncated_frame (Some other_phone_para) =
            Some (-5, Some p') \<and> send p' = send other_phone_para) \<and>
   (\<exists>p'. JT808FrameParse standard_parser unregistered_frame (Some other_phone_para) =
            Some (-6, Some p') \<and>
          send p' = (send other_phone_para)\<lparr>msg_head :=
                      (msg_head (send other_phone_para))\<lparr>phone_num := ''013523339527''\<rparr>\<rparr>) \<and>
   (\<exists>p'. JT808FrameParse standard_parser location_response_frame (Some other_phone_para) =
            Some (-1, Some p') \<and>
          send p' = (send other_phone_para)\<lparr>msg_head :=
                      (msg_head (send other_phone_para))\<lparr>phone_num := ''013523339527''\<rparr>\<rparr>)"
proof -
  note t = JT808FrameParse_failure_leaves_send_view [OF standard_parser_writes_parse_only]
  have 1: "\<exists>p'. JT808FrameParse standard_parser bad_escape_frame (Some other_phone_para) =
            Some (-3, Some p') \<and> send p' = send other_phone_para"
    using t [OF parse_bad_escape_frame, of other_phone_para]
    by (simp add: parse_bad_escape_frame bad_escape_frame_stages)
  have 2: "\<exists>p'. JT808FrameParse standard_parser bad_checksum_frame (Some other_phone_para) =
            Some (-4, Some p') \<and> send p' = send other_phone_para"
    using t [OF parse_bad_checksum_frame, of other_phone_para]
    by (simp add: parse_bad_checksum_frame bad_checksum_frame_stages)
  have 3: "\<exists>p'. JT808FrameParse standard_parser truncated_frame (Some other_phone_para) =
            Some (-5, Some p') \<and> send p' = send other_phone_para"
    using t [OF parse_truncated_frame, of other_phone_para]
    by (simp add: parse_truncated_frame truncated_frame_stages)
  have 4: "\<exists>p'. JT808FrameParse standard_parser unregistered_frame (Some other_phone_para) =
            Some (-6, Some p') \<and>
          send p' = (send other_phone_para)\<lparr>msg_head :=
                      (msg_head (send other_phone_para))\<lparr>phone_num := ''013523339527''\<rparr>\<rparr>"
  proof -
    have h: "JT808FrameHeadParse unregistered_frame (msg_head (parse other_phone_para)) =
               (0, head_of 0x0705 0)"
      by (simp add: unregistered_frame_stages(4) head_of_def)
    from t [OF parse_unregistered_frame, of other_phone_para] obtain p'
      where p': "dispatched_block other_phone_para
                   \<lparr>msg_id = 0x0705, msgbody_attr = 0, phone_num = ''013523339527'',
                     msg_flow_num = 1, total_packet = 0, packet_seq = 0\<rparr> = p'"
        and s: "send p' = (send other_phone_para)\<lparr>msg_head :=
                  (msg_head (send other_phone_para))\<lparr>phone_num := phone_num (msg_head (send p'))\<rparr>\<rparr>"
        and d: "\<forall>out h. ReverseEscape unregistered_frame = Some out \<and> checksum_matches out \<and>
                    JT808FrameHeadParse out (msg_head (parse other_phone_para)) = (0, h) \<longrightarrow>
              phone_num (msg_head (send p')) = phone_num h \<and>
              BcdToString (take 6 (drop 5 out)) = Some (phone_num h)"
      by auto
    from d unregistered_frame_stages(1,3) h
    have "phone_num (msg_head (send p')) = phone_num (head_of 0x0705 0)" by blast
    then have "phone_num (msg_head (send p')) = ''013523339527''" by (simp add: head_of_def)
    with s have "send p' = (send other_phone_para)\<lparr>msg_head :=
                  (msg_head (send other_phone_para))\<lparr>phone_num := ''013523339527''\<rparr>\<rparr>" by simp
    with parse_unregistered_frame [of other_phone_para] p' show ?thesis by blast
  qed
  have 5: "\<exists>p'. JT808FrameParse standard_parser location_response_frame (Some other_phone_para) =
            Some (-1, Some p') \<and>
          send p' = (send other_phone_para)\<lparr>msg_head :=
                      (msg_head (send other_phone_para))\<lparr>phone_num := ''013523339527''\<rparr>\<rparr>"
  proof -
    have "parse other_phone_para = zero_view" by (simp add: other_phone_para_def)
    from parse_location_response_frame [OF this] obtain v'
      where r: "JT808FrameParse standard_parser location_response_frame (Some other_phone_para) =
                  Some (-1, Some ((dispatched_block other_phone_para (head_of 0x0201 0x1E))
                     \<lparr>parse := v'\<rparr>))" ..
    from t [OF r] obtain p'
      where p': "(dispatched_block other_phone_para (head_of 0x0201 0x1E))\<lparr>parse := v'\<rparr> = p'"
        and s: "send p' = (send other_phone_para)\<lparr>msg_head :=
                  (msg_head (send other_phone_para))\<lparr>phone_num := phone_num (msg_head (send p'))\<rparr>\<rparr>"
        and d: "\<forall>out h. ReverseEscape location_response_frame = Some out \<and> checksum_matches out \<and>
                    JT808FrameHeadParse out (msg_head (parse other_phone_para)) = (0, h) \<longrightarrow>
              phone_num (msg_head (send p')) = phone_num h \<and>
              BcdToString (take 6 (drop 5 out)) = Some (phone_num h)"
      by auto
    from d location_response_frame_stages(1,3)
      location_response_frame_stages(4) [of "msg_head (parse other_phone_para)"]
    have "phone_num (msg_head (send p')) = phone_num (head_of 0x0201 0x1E)" by blast
    then have "phone_num (msg_head (send p')) = ''013523339527''" by (simp add: head_of_def)
    with s have "send p' = (send other_phone_para)\<lparr>msg_head :=
                  (msg_head (send other_phone_para))\<lparr>phone_num := ''013523339527''\<rparr>\<rparr>" by simp
    with r p' show ?thesis by blast
  qed
  from 1 2 3 4 5 show ?thesis by (intro conjI)
qed

text \<open>
  Claim C1 as stated fails: on the frame with the unregistered id 0x0705 the call
  returns \<open>UnregisteredMessageParser\<close>, and \<^verbatim>\<open>msg_head.phone_num\<close> of the send
  view, empty before the call, holds the phone number of the frame after it.
\<close>

theorem JT808FrameParse_failure_changes_phone_num_counterexample:
  "JT808FrameParse standard_parser unregistered_frame (Some zero_para) =
     Some (make_error_code UnregisteredMessageParser,
           Some (dispatched_block zero_para
             \<lparr>msg_id = 0x0705, msgbody_attr = 0, phone_num = ''013523339527'',
               msg_flow_num = 1, total_packet = 0, packet_seq = 0\<rparr>)) \<and>
   phone_num (msg_head (send zero_para)) = [] \<and>
   phone_num (msg_head (send (dispatched_block zero_para
             \<lparr>msg_id = 0x0705, msgbody_attr = 0, phone_num = ''013523339527'',
               msg_flow_num = 1, total_packet = 0, packet_seq = 0\<rparr>))) = ''013523339527''"
  by (simp add: parse_unregistered_frame dispatched_block_def zero_para_def zero_view_def zero_head_def)

end
